theory Spec2Isabelle
  imports Complex_Main
begin

section \<open>An all-pairs gravitational particle simulation (md-OpenMP\_12.c)\<close>

text \<open>
  The program keeps eleven arrays of \<open>double\<close> as local variables of \<open>main\<close>: the
  mass, position and velocity of every particle, and a snapshot of mass and position that is
  taken at the start of each time step. The embedding below follows the program text loop
  by loop.

  Numbers. A C \<open>double\<close> is modelled by a \<open>real\<close>: every operation is the exact one,
  without rounding, infinities or NaN. Where the program divides, the model divides in
  \<open>real\<close>, in which \<open>a / 0 = 0\<close>; C yields an infinity or a NaN there. The divisor
  \<open>d * d\<close> of the force law is at least \<open>0.0001\<close>; the other two divisors, \<open>mass[i]\<close> and
  \<open>totalMass\<close>, can be zero; a statement whose truth depends on such a quotient assumes
  that the divisor is not zero.
  The OpenMP pragmas split loops between threads; the model runs every loop in index order.
  For the update loop, \<open>LOOP2_order_irrelevant\<close> shows that the order of the iterations
  does not matter.

  Arrays. An array is a list, \<open>a[i]\<close> is \<open>a ! i\<close> and \<open>a[i] = v\<close> is \<open>a[i := v]\<close>. Every
  array of the program has \<open>num\<close> elements and every index lies in \<open>0..<num\<close>;
  \<open>arrays_ok\<close> states the length condition. An \<open>int\<close> loop bound is an \<open>int\<close> here;
  \<open>for (i=0; i<num; i++)\<close> runs over \<open>[0..<nat num]\<close>, which is empty for \<open>num \<le> 0\<close>.
\<close>

record state =
  mass :: "real list"
  x :: "real list"
  y :: "real list"
  z :: "real list"
  vx :: "real list"
  vy :: "real list"
  vz :: "real list"
  old_x :: "real list"
  old_y :: "real list"
  old_z :: "real list"
  old_mass :: "real list"

type_synonym vec3 = "real \<times> real \<times> real"

definition arrays_ok :: "int \<Rightarrow> state \<Rightarrow> bool" where
  "arrays_ok num s \<longleftrightarrow>
     length (mass s) = nat num \<and> length (x s) = nat num \<and> length (y s) = nat num \<and>
     length (z s) = nat num \<and> length (vx s) = nat num \<and> length (vy s) = nat num \<and>
     length (vz s) = nat num \<and> length (old_x s) = nat num \<and> length (old_y s) = nat num \<and>
     length (old_z s) = nat num \<and> length (old_mass s) = nat num"

subsection \<open>Simulation parameters\<close>

definition NUM :: int where
  "NUM = 20000"

definition TS :: int where
  "TS = 10"

definition GRAVCONST :: real where
  "GRAVCONST = 0.001"

subsection \<open>The time step: LOOP1 (snapshot) and LOOP2 (update)\<close>

text \<open>Lines 94--99: one iteration of the snapshot loop.\<close>

definition LOOP1_body :: "nat \<Rightarrow> state \<Rightarrow> state" where
  "LOOP1_body i s =
     s\<lparr>old_x := (old_x s)[i := x s ! i],
       old_y := (old_y s)[i := y s ! i],
       old_z := (old_z s)[i := z s ! i],
       old_mass := (old_mass s)[i := mass s ! i]\<rparr>"

definition LOOP1 :: "int \<Rightarrow> state \<Rightarrow> state" where
  "LOOP1 num s = fold LOOP1_body [0..<nat num] s"

text \<open>
  Lines 115--124, the computation for one pair \<open>(i, j)\<close>: the softened distance \<open>d\<close>, the
  force \<open>F\<close> and the acceleration \<open>(ax, ay, az)\<close>. The displacement reads the snapshot at
  \<open>j\<close> and the live position at \<open>i\<close>, as the program does. In C, \<open>(F/mass[i]) * dx/d\<close>
  is \<open>((F/mass[i]) * dx) / d\<close>.
\<close>

definition pair_d :: "state \<Rightarrow> nat \<Rightarrow> nat \<Rightarrow> real" where
  "pair_d s i j =
     (let dx = old_x s ! j - x s ! i;
          dy = old_y s ! j - y s ! i;
          dz = old_z s ! j - z s ! i;
          temp_d = sqrt (dx * dx + dy * dy + dz * dz)
      in if temp_d > 0.01 then temp_d else 0.01)"

definition pair_F :: "state \<Rightarrow> nat \<Rightarrow> nat \<Rightarrow> real" where
  "pair_F s i j =
     (let d = pair_d s i j
      in GRAVCONST * mass s ! i * old_mass s ! j / (d * d))"

definition pair_accel :: "state \<Rightarrow> nat \<Rightarrow> nat \<Rightarrow> vec3" where
  "pair_accel s i j =
     (let dx = old_x s ! j - x s ! i;
          dy = old_y s ! j - y s ! i;
          dz = old_z s ! j - z s ! i;
          d = pair_d s i j;
          F = pair_F s i j;
          ax = (F / mass s ! i) * dx / d;
          ay = (F / mass s ! i) * dy / d;
          az = (F / mass s ! i) * dz / d
      in (ax, ay, az))"

text \<open>Lines 113--130: one iteration of the loop over \<open>j\<close>, on the three local sums.\<close>

definition inner_body :: "state \<Rightarrow> nat \<Rightarrow> nat \<Rightarrow> vec3 \<Rightarrow> vec3" where
  "inner_body s i j loc =
     (case loc of (vxLocal, vyLocal, vzLocal) \<Rightarrow>
        if j \<noteq> i then
          (case pair_accel s i j of (ax, ay, az) \<Rightarrow>
             (vxLocal + ax, vyLocal + ay, vzLocal + az))
        else (vxLocal, vyLocal, vzLocal))"

text \<open>Lines 108--141: one iteration of the loop over \<open>i\<close>.\<close>

definition LOOP2_body :: "int \<Rightarrow> nat \<Rightarrow> state \<Rightarrow> state" where
  "LOOP2_body num i s =
     (case fold (inner_body s i) [0..<nat num] (0, 0, 0) of (vxLocal, vyLocal, vzLocal) \<Rightarrow>
        let s1 = s\<lparr>vx := (vx s)[i := vx s ! i + vxLocal],
                   vy := (vy s)[i := vy s ! i + vyLocal],
                   vz := (vz s)[i := vz s ! i + vzLocal]\<rparr>
        in s1\<lparr>x := (x s1)[i := old_x s1 ! i + vx s1 ! i],
              y := (y s1)[i := old_y s1 ! i + vy s1 ! i],
              z := (z s1)[i := old_z s1 ! i + vz s1 ! i]\<rparr>)"

definition LOOP2 :: "int \<Rightarrow> state \<Rightarrow> state" where
  "LOOP2 num s = fold (LOOP2_body num) [0..<nat num] s"

text \<open>Lines 92--141: the step integrator, the part of a time step that changes the state.\<close>

definition step :: "int \<Rightarrow> state \<Rightarrow> state" where
  "step num s = LOOP2 num (LOOP1 num s)"

subsection \<open>The initializer\<close>

text \<open>
  \<open>rand()\<close> and \<open>RAND_MAX\<close> belong to the C library. The model takes \<open>RAND_MAX\<close> as a
  parameter and the pseudo-random source as the sequence \<open>rand\<close> of the values that
  successive calls return; the counter \<open>c\<close> is the number of calls made so far. The seven
  pointer arguments of \<open>init\<close> are \<open>main\<close>'s arrays, so \<open>init\<close> works on the record that
  holds them.

  Lines 170--176: one iteration of the loop, seven draws in program order.
\<close>

definition init_body ::
  "real \<Rightarrow> real \<Rightarrow> real \<Rightarrow> real \<Rightarrow> (nat \<Rightarrow> int) \<Rightarrow> nat \<Rightarrow> state \<times> nat \<Rightarrow> state \<times> nat" where
  "init_body min_pos mult maxVel recip rand i sc =
     (case sc of (s, c) \<Rightarrow>
        let s = s\<lparr>x := (x s)[i := min_pos + mult * real_of_int (rand c) * recip]\<rparr>;
            s = s\<lparr>y := (y s)[i := min_pos + mult * real_of_int (rand (c + 1)) * recip]\<rparr>;
            s = s\<lparr>z := (z s)[i := 0 + mult * real_of_int (rand (c + 2)) * recip]\<rparr>;
            s = s\<lparr>vx := (vx s)[i := - maxVel + 2 * maxVel * real_of_int (rand (c + 3)) * recip]\<rparr>;
            s = s\<lparr>vy := (vy s)[i := - maxVel + 2 * maxVel * real_of_int (rand (c + 4)) * recip]\<rparr>;
            s = s\<lparr>vz := (vz s)[i := - maxVel + 2 * maxVel * real_of_int (rand (c + 5)) * recip]\<rparr>;
            s = s\<lparr>mass := (mass s)[i := 0.1 + 10 * real_of_int (rand (c + 6)) * recip]\<rparr>
        in (s, c + 7))"

text \<open>Lines 162--179. The result is the return code, the arrays and the call counter.\<close>

definition init :: "int \<Rightarrow> (nat \<Rightarrow> int) \<Rightarrow> nat \<Rightarrow> state \<Rightarrow> int \<Rightarrow> int \<times> state \<times> nat" where
  "init RAND_MAX rand c s num =
     (let min_pos = - 50; mult = 100; maxVel = 5;
          recip = 1 / real_of_int RAND_MAX
      in case fold (init_body min_pos mult maxVel recip rand) [0..<nat num] (s, c) of
           (s', c') \<Rightarrow> (0, s', c'))"

subsection \<open>The centre of mass\<close>

text \<open>Lines 195--203: the body of the loop over \<open>axis\<close>; \<open>com\<close> is the array \<open>com[3]\<close>.\<close>

definition com_pass ::
  "real list \<Rightarrow> real list \<Rightarrow> real list \<Rightarrow> real list \<Rightarrow> real \<Rightarrow> int \<Rightarrow> vec3 \<Rightarrow> vec3" where
  "com_pass xs ys zs ms totalMass N com =
     (let com = (0, 0, 0);
          com = fold (\<lambda>i (c0, c1, c2). (c0 + ms ! i * xs ! i, c1 + ms ! i * ys ! i, c2 + ms ! i * zs ! i))
                  [0..<nat N] com
      in case com of (c0, c1, c2) \<Rightarrow> (c0 / totalMass, c1 / totalMass, c2 / totalMass))"

text \<open>Lines 191--206: \<open>for (axis=0; axis<2; axis++)\<close> around that body.\<close>

definition calc_centre_mass ::
  "vec3 \<Rightarrow> real list \<Rightarrow> real list \<Rightarrow> real list \<Rightarrow> real list \<Rightarrow> real \<Rightarrow> int \<Rightarrow> vec3" where
  "calc_centre_mass com xs ys zs ms totalMass N =
     fold (\<lambda>axis com. com_pass xs ys zs ms totalMass N com) [0..<2] com"

subsection \<open>The driver\<close>

text \<open>
  The lines that \<open>main\<close> prints, without their formatting. The elapsed wall-clock time of
  the line \<open>Time to init+solve\<close> is left out.
\<close>

datatype message =
    Initializing int
  | MallocError
  | Malloced
  | InitError
  | InitComplete
  | AtT0 vec3
  | NowIntegrate int
  | EndOfTimestep int vec3
  | TimeTaken int int
  | CentreOfMass vec3

text \<open>Lines 70--74: the total mass.\<close>

definition total_mass :: "real list \<Rightarrow> int \<Rightarrow> real" where
  "total_mass ms num = fold (\<lambda>i totalMass. totalMass + ms ! i) [0..<nat num] 0"

text \<open>Lines 90--153: one iteration of the time loop, on the arrays, \<open>com\<close> and the output.\<close>

definition time_body ::
  "int \<Rightarrow> real \<Rightarrow> int \<Rightarrow> state \<times> vec3 \<times> message list \<Rightarrow> state \<times> vec3 \<times> message list" where
  "time_body num totalMass time acc =
     (case acc of (s, com, out) \<Rightarrow>
        let s = step num s;
            com = calc_centre_mass com (x s) (y s) (z s) (mass s) totalMass num
        in (s, com, out @ [EndOfTimestep time com]))"

text \<open>
  Lines 16--159. \<open>argv\<close> is the command line. \<open>mem\<close> stands for the eleven \<open>malloc\<close>
  calls: \<open>None\<close> when the last one, the only one the program checks, returned \<open>NULL\<close>, and
  otherwise the eleven fresh arrays with whatever they hold. \<open>com\<close> is not initialised in
  the program, and \<open>calc_centre_mass\<close> assigns all of it before reading it; the model
  starts it at zero. The result is the exit status and the output.
\<close>

definition main :: "string list \<Rightarrow> int \<Rightarrow> (nat \<Rightarrow> int) \<Rightarrow> state option \<Rightarrow> int \<times> message list" where
  "main argv RAND_MAX rand mem =
     (let num = NUM;
          timesteps = TS;
          out = [Initializing num]
      in case mem of
           None \<Rightarrow> (- 99, out @ [MallocError])
         | Some s \<Rightarrow>
             let out = out @ [Malloced]
             in case init RAND_MAX rand 0 s num of (rc, s, c) \<Rightarrow>
                  if rc \<noteq> 0 then (- 99, out @ [InitError])
                  else
                    let out = out @ [InitComplete];
                        totalMass = total_mass (mass s) num;
                        com = calc_centre_mass (0, 0, 0) (x s) (y s) (z s) (mass s) totalMass num;
                        out = out @ [AtT0 com];
                        out = out @ [NowIntegrate timesteps]
                    in case fold (time_body num totalMass) [1..timesteps] (s, com, out) of
                         (s, com, out) \<Rightarrow>
                           let out = out @ [TimeTaken num timesteps];
                               com = calc_centre_mass com (x s) (y s) (z s) (mass s) totalMass num
                           in (0, out @ [CentreOfMass com]))"

subsection \<open>The formulas of the specification\<close>

text \<open>
  The force law as the specification words it, on the snapshot only: the softened distance
  \<open>d = max(|d\<^sub>v|, 0.01)\<close> for the displacement \<open>d\<^sub>v = old_pos[j] - old_pos[i]\<close>, the force
  \<open>F = G * mass_i * old_mass_j / d\<^sup>2\<close>, and the component along the coordinate array
  \<open>oc\<close> of the contribution \<open>(F / mass_i) * (d\<^sub>v / d)\<close>.
\<close>

definition spec_d :: "real list \<Rightarrow> real list \<Rightarrow> real list \<Rightarrow> nat \<Rightarrow> nat \<Rightarrow> real" where
  "spec_d ox oy oz i j =
     max (sqrt ((ox ! j - ox ! i)\<^sup>2 + (oy ! j - oy ! i)\<^sup>2 + (oz ! j - oz ! i)\<^sup>2)) 0.01"

definition spec_F :: "real \<Rightarrow> real \<Rightarrow> real \<Rightarrow> real \<Rightarrow> real" where
  "spec_F G mass_i old_mass_j d = G * mass_i * old_mass_j / d\<^sup>2"

definition spec_accel ::
  "real list \<Rightarrow> real list \<Rightarrow> real list \<Rightarrow> real list \<Rightarrow> real list \<Rightarrow> real list \<Rightarrow> nat \<Rightarrow> nat \<Rightarrow> real" where
  "spec_accel ms om ox oy oz oc i j =
     (let d = spec_d ox oy oz i j;
          F = spec_F GRAVCONST (ms ! i) (om ! j) d
      in (F / ms ! i) * ((oc ! j - oc ! i) / d))"

text \<open>
  The driver that recomputes the total mass of the current state for every report,
  instead of using the one computed at \<open>t = 0\<close>.
\<close>

definition time_body_recomputing ::
  "int \<Rightarrow> int \<Rightarrow> state \<times> vec3 \<times> message list \<Rightarrow> state \<times> vec3 \<times> message list" where
  "time_body_recomputing num time acc =
     (case acc of (s, com, out) \<Rightarrow>
        let s = step num s;
            com = calc_centre_mass com (x s) (y s) (z s) (mass s) (total_mass (mass s) num) num
        in (s, com, out @ [EndOfTimestep time com]))"

definition main_recomputing ::
  "string list \<Rightarrow> int \<Rightarrow> (nat \<Rightarrow> int) \<Rightarrow> state option \<Rightarrow> int \<times> message list" where
  "main_recomputing argv RAND_MAX rand mem =
     (let num = NUM;
          timesteps = TS;
          out = [Initializing num]
      in case mem of
           None \<Rightarrow> (- 99, out @ [MallocError])
         | Some s \<Rightarrow>
             let out = out @ [Malloced]
             in case init RAND_MAX rand 0 s num of (rc, s, c) \<Rightarrow>
                  if rc \<noteq> 0 then (- 99, out @ [InitError])
                  else
                    let out = out @ [InitComplete];
                        com = calc_centre_mass (0, 0, 0) (x s) (y s) (z s) (mass s)
                                (total_mass (mass s) num) num;
                        out = out @ [AtT0 com];
                        out = out @ [NowIntegrate timesteps]
                    in case fold (time_body_recomputing num) [1..timesteps] (s, com, out) of
                         (s, com, out) \<Rightarrow>
                           let out = out @ [TimeTaken num timesteps];
                               com = calc_centre_mass com (x s) (y s) (z s) (mass s)
                                       (total_mass (mass s) num) num
                           in (0, out @ [CentreOfMass com]))"

subsection \<open>States used as examples\<close>

text \<open>
  One particle moving along the \<open>x\<close> axis; two particles at rest, five length units apart;
  eleven arrays of \<open>NUM\<close> elements, as \<open>main\<close> allocates them; and two pseudo-random
  sources for \<open>RAND_MAX = 2147483647\<close>, one that always returns \<open>0\<close> and one that always
  returns \<open>RAND_MAX\<close>.
\<close>

definition one_body :: state where
  "one_body = \<lparr>mass = [1], x = [0], y = [0], z = [0], vx = [1], vy = [0], vz = [0],
                old_x = [0], old_y = [0], old_z = [0], old_mass = [0]\<rparr>"

definition two_body :: state where
  "two_body = \<lparr>mass = [1, 2], x = [0, 3], y = [0, 4], z = [0, 0],
                vx = [0, 0], vy = [0, 0], vz = [0, 0],
                old_x = [0, 3], old_y = [0, 4], old_z = [0, 0], old_mass = [1, 2]\<rparr>"

definition fresh_memory :: state where
  "fresh_memory =
     \<lparr>mass = replicate 20000 0, x = replicate 20000 0, y = replicate 20000 0,
      z = replicate 20000 0, vx = replicate 20000 0, vy = replicate 20000 0,
      vz = replicate 20000 0, old_x = replicate 20000 0, old_y = replicate 20000 0,
      old_z = replicate 20000 0, old_mass = replicate 20000 0\<rparr>"

definition rand_lowest :: "nat \<Rightarrow> int" where
  "rand_lowest k = 0"

definition rand_highest :: "nat \<Rightarrow> int" where
  "rand_highest k = 2147483647"

section \<open>What each loop leaves alone\<close>

lemma LOOP1_body_frame:
  "mass (LOOP1_body i s) = mass s" "x (LOOP1_body i s) = x s" "y (LOOP1_body i s) = y s"
  "z (LOOP1_body i s) = z s" "vx (LOOP1_body i s) = vx s" "vy (LOOP1_body i s) = vy s"
  "vz (LOOP1_body i s) = vz s"
  by (simp_all add: LOOP1_body_def)

lemma fold_LOOP1_frame:
  "mass (fold LOOP1_body js s) = mass s \<and> x (fold LOOP1_body js s) = x s \<and>
   y (fold LOOP1_body js s) = y s \<and> z (fold LOOP1_body js s) = z s \<and>
   vx (fold LOOP1_body js s) = vx s \<and> vy (fold LOOP1_body js s) = vy s \<and>
   vz (fold LOOP1_body js s) = vz s"
  by (induction js arbitrary: s) (simp_all add: LOOP1_body_frame)

lemma LOOP2_body_frame:
  "mass (LOOP2_body num i s) = mass s" "old_x (LOOP2_body num i s) = old_x s"
  "old_y (LOOP2_body num i s) = old_y s" "old_z (LOOP2_body num i s) = old_z s"
  "old_mass (LOOP2_body num i s) = old_mass s"
  by (simp_all add: LOOP2_body_def Let_def split: prod.split)

lemma fold_LOOP2_frame:
  "mass (fold (LOOP2_body num) js s) = mass s \<and>
   old_x (fold (LOOP2_body num) js s) = old_x s \<and>
   old_y (fold (LOOP2_body num) js s) = old_y s \<and>
   old_z (fold (LOOP2_body num) js s) = old_z s \<and>
   old_mass (fold (LOOP2_body num) js s) = old_mass s"
  by (induction js arbitrary: s) (simp_all add: LOOP2_body_frame)

lemma step_mass: "mass (step num s) = mass s"
  by (simp add: step_def LOOP1_def LOOP2_def fold_LOOP1_frame fold_LOOP2_frame)

lemma steps_mass: "mass ((step num ^^ t) s) = mass s"
  by (induction t) (simp_all add: step_mass)

section \<open>The snapshot loop\<close>

lemma fold_LOOP1_length:
  "length (old_x (fold LOOP1_body js s)) = length (old_x s) \<and>
   length (old_y (fold LOOP1_body js s)) = length (old_y s) \<and>
   length (old_z (fold LOOP1_body js s)) = length (old_z s) \<and>
   length (old_mass (fold LOOP1_body js s)) = length (old_mass s)"
  by (induction js arbitrary: s) (simp_all add: LOOP1_body_def)

lemma fold_LOOP1_nth:
  "k < length (old_x s) \<Longrightarrow> old_x (fold LOOP1_body [0..<m] s) ! k = (if k < m then x s ! k else old_x s ! k)"
  "k < length (old_y s) \<Longrightarrow> old_y (fold LOOP1_body [0..<m] s) ! k = (if k < m then y s ! k else old_y s ! k)"
  "k < length (old_z s) \<Longrightarrow> old_z (fold LOOP1_body [0..<m] s) ! k = (if k < m then z s ! k else old_z s ! k)"
  "k < length (old_mass s) \<Longrightarrow> old_mass (fold LOOP1_body [0..<m] s) ! k = (if k < m then mass s ! k else old_mass s ! k)"
  by (induction m;
      auto simp: LOOP1_body_def fold_LOOP1_frame fold_LOOP1_length nth_list_update less_Suc_eq)+

lemma LOOP1_snapshot:
  assumes "arrays_ok num s"
  shows "old_x (LOOP1 num s) = x s" "old_y (LOOP1 num s) = y s" "old_z (LOOP1 num s) = z s"
    "old_mass (LOOP1 num s) = mass s"
  using assms unfolding LOOP1_def arrays_ok_def
  by (auto intro!: nth_equalityI simp: fold_LOOP1_length fold_LOOP1_nth)

lemma LOOP1_frame:
  "mass (LOOP1 num s) = mass s" "x (LOOP1 num s) = x s" "y (LOOP1 num s) = y s"
  "z (LOOP1 num s) = z s" "vx (LOOP1 num s) = vx s" "vy (LOOP1 num s) = vy s"
  "vz (LOOP1 num s) = vz s"
  by (simp_all add: LOOP1_def fold_LOOP1_frame)

lemma LOOP1_arrays_ok: "arrays_ok num s \<Longrightarrow> arrays_ok num (LOOP1 num s)"
  by (simp add: arrays_ok_def LOOP1_frame LOOP1_snapshot)

lemma LOOP1_live_eq_snapshot:
  assumes ok: "arrays_ok num s"
  shows "x (LOOP1 num s) = old_x (LOOP1 num s)" "y (LOOP1 num s) = old_y (LOOP1 num s)"
    "z (LOOP1 num s) = old_z (LOOP1 num s)"
  by (simp_all add: LOOP1_frame LOOP1_snapshot [OF ok])

section \<open>The computation for one pair and the loop over j\<close>

text \<open>
  The loop over \<open>j\<close> reads the state only through the mass, the snapshot and the live
  position of particle \<open>i\<close>.
\<close>

lemma pair_accel_cong:
  assumes "mass s' = mass s" "old_mass s' = old_mass s" "old_x s' = old_x s"
    "old_y s' = old_y s" "old_z s' = old_z s"
    "x s' ! i = x s ! i" "y s' ! i = y s ! i" "z s' ! i = z s ! i"
  shows "pair_accel s' i j = pair_accel s i j"
  using assms by (simp add: pair_accel_def pair_F_def pair_d_def)

lemma inner_body_cong:
  assumes "mass s' = mass s" "old_mass s' = old_mass s" "old_x s' = old_x s"
    "old_y s' = old_y s" "old_z s' = old_z s"
    "x s' ! i = x s ! i" "y s' ! i = y s ! i" "z s' ! i = z s ! i"
  shows "inner_body s' i = inner_body s i"
  by (intro ext) (simp only: inner_body_def pair_accel_cong [OF assms])

lemma inner_body_eq:
  "inner_body s i j (a, b, c) =
     (if j \<noteq> i
      then (a + fst (pair_accel s i j), b + fst (snd (pair_accel s i j)),
            c + snd (snd (pair_accel s i j)))
      else (a, b, c))"
  by (simp add: inner_body_def split: prod.split)

lemma sum_except:
  fixes f :: "nat \<Rightarrow> real"
  shows "(\<Sum>j\<in>{0..<Suc n} - {i}. f j) = (\<Sum>j\<in>{0..<n} - {i}. f j) + (if n \<noteq> i then f n else 0)"
proof (cases "n = i")
  case True
  have "{0..<Suc i} - {i} = {0..<i} - {i}" by auto
  then show ?thesis using True by simp
next
  case False
  have "{0..<Suc n} - {i} = insert n ({0..<n} - {i})" using False by auto
  then show ?thesis using False by simp
qed

lemma inner_fold:
  "fold (inner_body s i) [0..<n] (a, b, c) =
     (a + (\<Sum>j\<in>{0..<n} - {i}. fst (pair_accel s i j)),
      b + (\<Sum>j\<in>{0..<n} - {i}. fst (snd (pair_accel s i j))),
      c + (\<Sum>j\<in>{0..<n} - {i}. snd (snd (pair_accel s i j))))"
proof (induction n)
  case 0
  show ?case by simp
next
  case (Suc n)
  have "fold (inner_body s i) [0..<Suc n] (a, b, c) =
        inner_body s i n (fold (inner_body s i) [0..<n] (a, b, c))"
    by simp
  then show ?case
    unfolding Suc.IH inner_body_eq sum_except by simp
qed

lemma pair_d_floor: "0.01 \<le> pair_d s i j"
  unfolding pair_d_def Let_def by (split if_split) (intro conjI impI; linarith)

lemma pair_d_snapshot:
  assumes "x s ! i = old_x s ! i" "y s ! i = old_y s ! i" "z s ! i = old_z s ! i"
  shows "pair_d s i j = spec_d (old_x s) (old_y s) (old_z s) i j"
  using assms by (simp add: pair_d_def spec_d_def Let_def power2_eq_square max_def)

lemma pair_accel_snapshot:
  assumes "x s ! i = old_x s ! i" "y s ! i = old_y s ! i" "z s ! i = old_z s ! i"
  shows "pair_accel s i j =
    (spec_accel (mass s) (old_mass s) (old_x s) (old_y s) (old_z s) (old_x s) i j,
     spec_accel (mass s) (old_mass s) (old_x s) (old_y s) (old_z s) (old_y s) i j,
     spec_accel (mass s) (old_mass s) (old_x s) (old_y s) (old_z s) (old_z s) i j)"
  by (simp add: pair_accel_def pair_F_def pair_d_snapshot [OF assms] spec_accel_def spec_F_def
      Let_def power2_eq_square assms)

lemma spec_d_sym: "spec_d ox oy oz i j = spec_d ox oy oz j i"
  by (simp add: spec_d_def power2_commute)

lemma pair_accel_cancel:
  assumes "mass s ! i \<noteq> 0"
  shows "pair_accel s i j =
     (GRAVCONST * old_mass s ! j / (pair_d s i j)\<^sup>2 * ((old_x s ! j - x s ! i) / pair_d s i j),
      GRAVCONST * old_mass s ! j / (pair_d s i j)\<^sup>2 * ((old_y s ! j - y s ! i) / pair_d s i j),
      GRAVCONST * old_mass s ! j / (pair_d s i j)\<^sup>2 * ((old_z s ! j - z s ! i) / pair_d s i j))"
  using assms by (simp add: pair_accel_def pair_F_def Let_def power2_eq_square)

section \<open>The update loop\<close>

text \<open>
  \<open>fold (LOOP2_body num) [0..<m] s\<close> is the state when the loop over \<open>i\<close> reaches \<open>i = m\<close>:
  the particles below \<open>m\<close> have their new velocity and position, the others are untouched.
\<close>

lemma LOOP2_body_length:
  "length (x (LOOP2_body num i s)) = length (x s)" "length (y (LOOP2_body num i s)) = length (y s)"
  "length (z (LOOP2_body num i s)) = length (z s)" "length (vx (LOOP2_body num i s)) = length (vx s)"
  "length (vy (LOOP2_body num i s)) = length (vy s)" "length (vz (LOOP2_body num i s)) = length (vz s)"
  by (simp_all add: LOOP2_body_def Let_def split: prod.split)

lemma LOOP2_body_arrays_ok: "arrays_ok num s \<Longrightarrow> arrays_ok num (LOOP2_body num i s)"
  by (simp add: arrays_ok_def LOOP2_body_length LOOP2_body_frame)

lemma LOOP2_body_other:
  assumes "k \<noteq> i"
  shows "x (LOOP2_body num i s) ! k = x s ! k" "y (LOOP2_body num i s) ! k = y s ! k"
    "z (LOOP2_body num i s) ! k = z s ! k" "vx (LOOP2_body num i s) ! k = vx s ! k"
    "vy (LOOP2_body num i s) ! k = vy s ! k" "vz (LOOP2_body num i s) ! k = vz s ! k"
  using assms by (simp_all add: LOOP2_body_def Let_def split: prod.split)

lemma LOOP2_body_self:
  assumes "arrays_ok num s" "i < nat num"
  shows "vx (LOOP2_body num i s) ! i = vx s ! i + fst (fold (inner_body s i) [0..<nat num] (0, 0, 0))"
    "vy (LOOP2_body num i s) ! i = vy s ! i + fst (snd (fold (inner_body s i) [0..<nat num] (0, 0, 0)))"
    "vz (LOOP2_body num i s) ! i = vz s ! i + snd (snd (fold (inner_body s i) [0..<nat num] (0, 0, 0)))"
    "x (LOOP2_body num i s) ! i = old_x s ! i + vx (LOOP2_body num i s) ! i"
    "y (LOOP2_body num i s) ! i = old_y s ! i + vy (LOOP2_body num i s) ! i"
    "z (LOOP2_body num i s) ! i = old_z s ! i + vz (LOOP2_body num i s) ! i"
  using assms by (simp_all add: arrays_ok_def LOOP2_body_def Let_def split: prod.split)

text \<open>
  The iterations of the update loop do not interfere: run on any list of distinct indices,
  they give each listed particle the velocity and position computed from the state the
  loop started in, and leave the others untouched. So every order of the \<open>num\<close>
  iterations ends in the state that the index order ends in.
\<close>

lemma LOOP2_any_order:
  assumes ok: "arrays_ok num s" and d: "distinct js" and sub: "set js \<subseteq> {..<nat num}"
  shows "arrays_ok num (fold (LOOP2_body num) js s) \<and>
    (\<forall>k. k \<notin> set js \<longrightarrow>
            x (fold (LOOP2_body num) js s) ! k = x s ! k \<and>
            y (fold (LOOP2_body num) js s) ! k = y s ! k \<and>
            z (fold (LOOP2_body num) js s) ! k = z s ! k \<and>
            vx (fold (LOOP2_body num) js s) ! k = vx s ! k \<and>
            vy (fold (LOOP2_body num) js s) ! k = vy s ! k \<and>
            vz (fold (LOOP2_body num) js s) ! k = vz s ! k) \<and>
    (\<forall>k\<in>set js.
            vx (fold (LOOP2_body num) js s) ! k =
              vx s ! k + fst (fold (inner_body s k) [0..<nat num] (0, 0, 0)) \<and>
            vy (fold (LOOP2_body num) js s) ! k =
              vy s ! k + fst (snd (fold (inner_body s k) [0..<nat num] (0, 0, 0))) \<and>
            vz (fold (LOOP2_body num) js s) ! k =
              vz s ! k + snd (snd (fold (inner_body s k) [0..<nat num] (0, 0, 0))) \<and>
            x (fold (LOOP2_body num) js s) ! k =
              old_x s ! k + vx (fold (LOOP2_body num) js s) ! k \<and>
            y (fold (LOOP2_body num) js s) ! k =
              old_y s ! k + vy (fold (LOOP2_body num) js s) ! k \<and>
            z (fold (LOOP2_body num) js s) ! k =
              old_z s ! k + vz (fold (LOOP2_body num) js s) ! k)"
  using d sub
proof (induction js rule: rev_induct)
  case Nil
  show ?case using ok by simp
next
  case (snoc m js)
  let ?t = "fold (LOOP2_body num) js s"
  have m: "m < nat num" and mjs: "m \<notin> set js" using snoc.prems by simp_all
  have IH: "arrays_ok num ?t \<and>
    (\<forall>k. k \<notin> set js \<longrightarrow> x ?t ! k = x s ! k \<and> y ?t ! k = y s ! k \<and> z ?t ! k = z s ! k \<and>
            vx ?t ! k = vx s ! k \<and> vy ?t ! k = vy s ! k \<and> vz ?t ! k = vz s ! k) \<and>
    (\<forall>k\<in>set js. vx ?t ! k = vx s ! k + fst (fold (inner_body s k) [0..<nat num] (0, 0, 0)) \<and>
            vy ?t ! k = vy s ! k + fst (snd (fold (inner_body s k) [0..<nat num] (0, 0, 0))) \<and>
            vz ?t ! k = vz s ! k + snd (snd (fold (inner_body s k) [0..<nat num] (0, 0, 0))) \<and>
            x ?t ! k = old_x s ! k + vx ?t ! k \<and>
            y ?t ! k = old_y s ! k + vy ?t ! k \<and>
            z ?t ! k = old_z s ! k + vz ?t ! k)"
    using snoc.IH snoc.prems by simp
  have okt: "arrays_ok num ?t" using IH by (rule conjunct1)
  have rest: "x ?t ! k = x s ! k" "y ?t ! k = y s ! k" "z ?t ! k = z s ! k"
    "vx ?t ! k = vx s ! k" "vy ?t ! k = vy s ! k" "vz ?t ! k = vz s ! k" if "k \<notin> set js" for k
    using IH [THEN conjunct2, THEN conjunct1, rule_format, OF that] by simp_all
  note prev = IH [THEN conjunct2, THEN conjunct2, rule_format]
  have fr: "mass ?t = mass s" "old_mass ?t = old_mass s" "old_x ?t = old_x s"
    "old_y ?t = old_y s" "old_z ?t = old_z s"
    by (simp_all add: fold_LOOP2_frame)
  have ib: "inner_body ?t m = inner_body s m"
    using fr rest [OF mjs] by (intro inner_body_cong) simp_all
  have unf: "fold (LOOP2_body num) (js @ [m]) s = LOOP2_body num m ?t" by simp
  have A: "arrays_ok num (LOOP2_body num m ?t)" by (rule LOOP2_body_arrays_ok [OF okt])
  have B: "x (LOOP2_body num m ?t) ! k = x s ! k \<and> y (LOOP2_body num m ?t) ! k = y s ! k \<and>
           z (LOOP2_body num m ?t) ! k = z s ! k \<and> vx (LOOP2_body num m ?t) ! k = vx s ! k \<and>
           vy (LOOP2_body num m ?t) ! k = vy s ! k \<and> vz (LOOP2_body num m ?t) ! k = vz s ! k"
    if "k \<notin> set (js @ [m])" for k
  proof -
    have "k \<noteq> m" "k \<notin> set js" using that by simp_all
    then show ?thesis using rest [of k] by (simp add: LOOP2_body_other)
  qed
  have C: "vx (LOOP2_body num m ?t) ! k = vx s ! k + fst (fold (inner_body s k) [0..<nat num] (0, 0, 0)) \<and>
           vy (LOOP2_body num m ?t) ! k = vy s ! k + fst (snd (fold (inner_body s k) [0..<nat num] (0, 0, 0))) \<and>
           vz (LOOP2_body num m ?t) ! k = vz s ! k + snd (snd (fold (inner_body s k) [0..<nat num] (0, 0, 0))) \<and>
           x (LOOP2_body num m ?t) ! k = old_x s ! k + vx (LOOP2_body num m ?t) ! k \<and>
           y (LOOP2_body num m ?t) ! k = old_y s ! k + vy (LOOP2_body num m ?t) ! k \<and>
           z (LOOP2_body num m ?t) ! k = old_z s ! k + vz (LOOP2_body num m ?t) ! k"
    if "k \<in> set (js @ [m])" for k
  proof (cases "k = m")
    case True
    show ?thesis unfolding True
      using rest [OF mjs] by (simp add: LOOP2_body_self [OF okt m] ib fr)
  next
    case False
    then have "k \<in> set js" using that by simp
    then show ?thesis using prev [of k] False by (simp add: LOOP2_body_other)
  qed
  have B': "\<forall>k. k \<notin> set (js @ [m]) \<longrightarrow>
           x (LOOP2_body num m ?t) ! k = x s ! k \<and> y (LOOP2_body num m ?t) ! k = y s ! k \<and>
           z (LOOP2_body num m ?t) ! k = z s ! k \<and> vx (LOOP2_body num m ?t) ! k = vx s ! k \<and>
           vy (LOOP2_body num m ?t) ! k = vy s ! k \<and> vz (LOOP2_body num m ?t) ! k = vz s ! k"
    by (intro allI impI) (rule B)
  have C': "\<forall>k\<in>set (js @ [m]).
           vx (LOOP2_body num m ?t) ! k = vx s ! k + fst (fold (inner_body s k) [0..<nat num] (0, 0, 0)) \<and>
           vy (LOOP2_body num m ?t) ! k = vy s ! k + fst (snd (fold (inner_body s k) [0..<nat num] (0, 0, 0))) \<and>
           vz (LOOP2_body num m ?t) ! k = vz s ! k + snd (snd (fold (inner_body s k) [0..<nat num] (0, 0, 0))) \<and>
           x (LOOP2_body num m ?t) ! k = old_x s ! k + vx (LOOP2_body num m ?t) ! k \<and>
           y (LOOP2_body num m ?t) ! k = old_y s ! k + vy (LOOP2_body num m ?t) ! k \<and>
           z (LOOP2_body num m ?t) ! k = old_z s ! k + vz (LOOP2_body num m ?t) ! k"
    by (intro ballI) (rule C)
  show ?case unfolding unf by (rule conjI [OF A conjI [OF B' C']])
qed

lemma LOOP2_prefix:
  assumes ok: "arrays_ok num s" and m: "m \<le> nat num"
  shows "arrays_ok num (fold (LOOP2_body num) [0..<m] s) \<and>
    (\<forall>k\<ge>m. x (fold (LOOP2_body num) [0..<m] s) ! k = x s ! k \<and>
            y (fold (LOOP2_body num) [0..<m] s) ! k = y s ! k \<and>
            z (fold (LOOP2_body num) [0..<m] s) ! k = z s ! k \<and>
            vx (fold (LOOP2_body num) [0..<m] s) ! k = vx s ! k \<and>
            vy (fold (LOOP2_body num) [0..<m] s) ! k = vy s ! k \<and>
            vz (fold (LOOP2_body num) [0..<m] s) ! k = vz s ! k) \<and>
    (\<forall>k<m. vx (fold (LOOP2_body num) [0..<m] s) ! k =
              vx s ! k + fst (fold (inner_body s k) [0..<nat num] (0, 0, 0)) \<and>
            vy (fold (LOOP2_body num) [0..<m] s) ! k =
              vy s ! k + fst (snd (fold (inner_body s k) [0..<nat num] (0, 0, 0))) \<and>
            vz (fold (LOOP2_body num) [0..<m] s) ! k =
              vz s ! k + snd (snd (fold (inner_body s k) [0..<nat num] (0, 0, 0))) \<and>
            x (fold (LOOP2_body num) [0..<m] s) ! k =
              old_x s ! k + vx (fold (LOOP2_body num) [0..<m] s) ! k \<and>
            y (fold (LOOP2_body num) [0..<m] s) ! k =
              old_y s ! k + vy (fold (LOOP2_body num) [0..<m] s) ! k \<and>
            z (fold (LOOP2_body num) [0..<m] s) ! k =
              old_z s ! k + vz (fold (LOOP2_body num) [0..<m] s) ! k)"
proof -
  have sub: "set [0..<m] \<subseteq> {..<nat num}" using m by auto
  show ?thesis
    using LOOP2_any_order [OF ok distinct_upt sub] by (simp add: not_less)
qed

lemma LOOP2_frame:
  "mass (LOOP2 num s) = mass s" "old_x (LOOP2 num s) = old_x s" "old_y (LOOP2 num s) = old_y s"
  "old_z (LOOP2 num s) = old_z s" "old_mass (LOOP2 num s) = old_mass s"
  by (simp_all add: LOOP2_def fold_LOOP2_frame)

lemma LOOP2_order_irrelevant:
  assumes ok: "arrays_ok num s" and d: "distinct js" and all: "set js = {..<nat num}"
  shows "fold (LOOP2_body num) js s = LOOP2 num s"
proof -
  let ?a = "fold (LOOP2_body num) js s" and ?b = "fold (LOOP2_body num) [0..<nat num] s"
  have sub: "set js \<subseteq> {..<nat num}" using all by simp
  have sub': "set [0..<nat num] \<subseteq> {..<nat num}" by auto
  note a = LOOP2_any_order [OF ok d sub] and b = LOOP2_any_order [OF ok distinct_upt sub']
  have oka: "arrays_ok num ?a" and okb: "arrays_ok num ?b"
    using a [THEN conjunct1] b [THEN conjunct1] by simp_all
  have v: "vx ?a ! k = vx ?b ! k \<and> vy ?a ! k = vy ?b ! k \<and> vz ?a ! k = vz ?b ! k \<and>
           x ?a ! k = x ?b ! k \<and> y ?a ! k = y ?b ! k \<and> z ?a ! k = z ?b ! k" if "k < nat num" for k
  proof -
    have "k \<in> set js" "k \<in> set [0..<nat num]" using that all by simp_all
    then show ?thesis
      using a [THEN conjunct2, THEN conjunct2, rule_format, of k]
        b [THEN conjunct2, THEN conjunct2, rule_format, of k] by simp
  qed
  have len: "length (x ?a) = nat num" "length (y ?a) = nat num" "length (z ?a) = nat num"
    "length (vx ?a) = nat num" "length (vy ?a) = nat num" "length (vz ?a) = nat num"
    "length (x ?b) = nat num" "length (y ?b) = nat num" "length (z ?b) = nat num"
    "length (vx ?b) = nat num" "length (vy ?b) = nat num" "length (vz ?b) = nat num"
    using oka okb by (simp_all add: arrays_ok_def)
  have "x ?a = x ?b" "y ?a = y ?b" "z ?a = z ?b" "vx ?a = vx ?b" "vy ?a = vy ?b" "vz ?a = vz ?b"
    by (rule nth_equalityI; simp add: len v)+
  then have "?a = ?b"
    by (intro state.equality) (simp_all add: fold_LOOP2_frame)
  then show ?thesis by (simp add: LOOP2_def)
qed

lemma step_arrays_ok: "arrays_ok num s \<Longrightarrow> arrays_ok num (step num s)"
  using LOOP2_prefix [OF LOOP1_arrays_ok, of num s "nat num"]
  by (simp add: step_def LOOP2_def)

lemma steps_arrays_ok: "arrays_ok num s \<Longrightarrow> arrays_ok num ((step num ^^ t) s)"
  by (induction t) (simp_all add: step_arrays_ok)

lemma step_snapshot:
  assumes "arrays_ok num s"
  shows "old_x (step num s) = x s" "old_y (step num s) = y s" "old_z (step num s) = z s"
    "old_mass (step num s) = mass s"
  by (simp_all add: step_def LOOP2_frame LOOP1_snapshot [OF assms])

lemma step_particle:
  assumes ok: "arrays_ok num s" and i: "i < nat num"
  shows "vx (step num s) ! i = vx s ! i + fst (fold (inner_body (LOOP1 num s) i) [0..<nat num] (0, 0, 0))"
    "vy (step num s) ! i = vy s ! i + fst (snd (fold (inner_body (LOOP1 num s) i) [0..<nat num] (0, 0, 0)))"
    "vz (step num s) ! i = vz s ! i + snd (snd (fold (inner_body (LOOP1 num s) i) [0..<nat num] (0, 0, 0)))"
    "x (step num s) ! i = x s ! i + vx (step num s) ! i"
    "y (step num s) ! i = y s ! i + vy (step num s) ! i"
    "z (step num s) ! i = z s ! i + vz (step num s) ! i"
  using LOOP2_prefix [OF LOOP1_arrays_ok [OF ok], of "nat num"] i
  by (simp_all add: step_def LOOP2_def LOOP1_frame LOOP1_snapshot [OF ok])

lemma live_position_at_i:
  assumes ok: "arrays_ok num s" and i: "i < nat num"
  shows "x (fold (LOOP2_body num) [0..<i] (LOOP1 num s)) ! i = old_x (fold (LOOP2_body num) [0..<i] (LOOP1 num s)) ! i"
    "y (fold (LOOP2_body num) [0..<i] (LOOP1 num s)) ! i = old_y (fold (LOOP2_body num) [0..<i] (LOOP1 num s)) ! i"
    "z (fold (LOOP2_body num) [0..<i] (LOOP1 num s)) ! i = old_z (fold (LOOP2_body num) [0..<i] (LOOP1 num s)) ! i"
  using LOOP2_prefix [OF LOOP1_arrays_ok [OF ok], of i] i
  by (simp_all add: fold_LOOP2_frame LOOP1_live_eq_snapshot [OF ok])

lemma pair_F_at_i:
  assumes ok: "arrays_ok num s" and i: "i < nat num"
  shows "pair_F (fold (LOOP2_body num) [0..<i] (LOOP1 num s)) i j =
         GRAVCONST * mass s ! i * mass s ! j / (spec_d (x s) (y s) (z s) i j)\<^sup>2"
  by (simp add: pair_F_def pair_d_snapshot [OF live_position_at_i [OF ok i]] fold_LOOP2_frame
      LOOP1_frame LOOP1_snapshot [OF ok] Let_def power2_eq_square)

lemma single_step:
  assumes ok: "arrays_ok 1 s"
  shows "vx (step 1 s) = vx s" "vy (step 1 s) = vy s" "vz (step 1 s) = vz s"
    "x (step 1 s) ! 0 = x s ! 0 + vx s ! 0"
    "y (step 1 s) ! 0 = y s ! 0 + vy s ! 0"
    "z (step 1 s) ! 0 = z s ! 0 + vz s ! 0"
proof -
  have ok': "arrays_ok 1 (step 1 s)" by (rule step_arrays_ok [OF ok])
  have v: "vx (step 1 s) ! 0 = vx s ! 0" "vy (step 1 s) ! 0 = vy s ! 0" "vz (step 1 s) ! 0 = vz s ! 0"
    using step_particle(1-3) [OF ok, of 0] by (simp_all add: inner_body_eq)
  show "vx (step 1 s) = vx s" "vy (step 1 s) = vy s" "vz (step 1 s) = vz s"
    using ok ok' v by (auto simp: arrays_ok_def intro!: nth_equalityI)
  then show "x (step 1 s) ! 0 = x s ! 0 + vx s ! 0"
    "y (step 1 s) ! 0 = y s ! 0 + vy s ! 0"
    "z (step 1 s) ! 0 = z s ! 0 + vz s ! 0"
    using step_particle(4-6) [OF ok, of 0] by simp_all
qed

section \<open>The centre of mass\<close>

lemma com_fold:
  "fold (\<lambda>i (c0, c1, c2). (c0 + ms ! i * xs ! i, c1 + ms ! i * ys ! i, c2 + ms ! i * zs ! i))
     [0..<n] (a, b, c) =
   (a + (\<Sum>i<n. ms ! i * xs ! i), b + (\<Sum>i<n. ms ! i * ys ! i), c + (\<Sum>i<n. ms ! i * zs ! i))"
  by (induction n) (simp_all add: add.assoc)

lemma com_pass_eq:
  "com_pass xs ys zs ms totalMass N com =
     ((\<Sum>i<nat N. ms ! i * xs ! i) / totalMass,
      (\<Sum>i<nat N. ms ! i * ys ! i) / totalMass,
      (\<Sum>i<nat N. ms ! i * zs ! i) / totalMass)"
  by (simp add: com_pass_def com_fold)

lemma calc_centre_mass_eq:
  "calc_centre_mass com xs ys zs ms totalMass N = com_pass xs ys zs ms totalMass N com"
proof -
  have "[0..<2] = [0, Suc 0]" by (simp add: upt_rec)
  then show ?thesis by (simp add: calc_centre_mass_def com_pass_eq)
qed

lemma calc_centre_mass_com:
  "calc_centre_mass com xs ys zs ms totalMass N = calc_centre_mass (0, 0, 0) xs ys zs ms totalMass N"
  by (simp add: calc_centre_mass_eq com_pass_eq)

section \<open>The initializer\<close>

lemma init_body_frame:
  "old_x (fst (init_body mp mu mv r rand i (s, c))) = old_x s"
  "old_y (fst (init_body mp mu mv r rand i (s, c))) = old_y s"
  "old_z (fst (init_body mp mu mv r rand i (s, c))) = old_z s"
  "old_mass (fst (init_body mp mu mv r rand i (s, c))) = old_mass s"
  "snd (init_body mp mu mv r rand i (s, c)) = c + 7"
  by (simp_all add: init_body_def Let_def)

lemma init_body_length:
  "length (mass (fst (init_body mp mu mv r rand i (s, c)))) = length (mass s)"
  "length (x (fst (init_body mp mu mv r rand i (s, c)))) = length (x s)"
  "length (y (fst (init_body mp mu mv r rand i (s, c)))) = length (y s)"
  "length (z (fst (init_body mp mu mv r rand i (s, c)))) = length (z s)"
  "length (vx (fst (init_body mp mu mv r rand i (s, c)))) = length (vx s)"
  "length (vy (fst (init_body mp mu mv r rand i (s, c)))) = length (vy s)"
  "length (vz (fst (init_body mp mu mv r rand i (s, c)))) = length (vz s)"
  by (simp_all add: init_body_def Let_def)

lemma init_body_arrays_ok:
  "arrays_ok num s \<Longrightarrow> arrays_ok num (fst (init_body mp mu mv r rand i (s, c)))"
  by (simp add: arrays_ok_def init_body_frame init_body_length)

lemma init_body_other:
  assumes "k \<noteq> i"
  shows "mass (fst (init_body mp mu mv r rand i (s, c))) ! k = mass s ! k"
    "x (fst (init_body mp mu mv r rand i (s, c))) ! k = x s ! k"
    "y (fst (init_body mp mu mv r rand i (s, c))) ! k = y s ! k"
    "z (fst (init_body mp mu mv r rand i (s, c))) ! k = z s ! k"
    "vx (fst (init_body mp mu mv r rand i (s, c))) ! k = vx s ! k"
    "vy (fst (init_body mp mu mv r rand i (s, c))) ! k = vy s ! k"
    "vz (fst (init_body mp mu mv r rand i (s, c))) ! k = vz s ! k"
  using assms by (simp_all add: init_body_def Let_def)

lemma init_body_self:
  assumes "arrays_ok num s" "i < nat num"
  shows "x (fst (init_body mp mu mv r rand i (s, c))) ! i = mp + mu * real_of_int (rand c) * r"
    "y (fst (init_body mp mu mv r rand i (s, c))) ! i = mp + mu * real_of_int (rand (c + 1)) * r"
    "z (fst (init_body mp mu mv r rand i (s, c))) ! i = 0 + mu * real_of_int (rand (c + 2)) * r"
    "vx (fst (init_body mp mu mv r rand i (s, c))) ! i = - mv + 2 * mv * real_of_int (rand (c + 3)) * r"
    "vy (fst (init_body mp mu mv r rand i (s, c))) ! i = - mv + 2 * mv * real_of_int (rand (c + 4)) * r"
    "vz (fst (init_body mp mu mv r rand i (s, c))) ! i = - mv + 2 * mv * real_of_int (rand (c + 5)) * r"
    "mass (fst (init_body mp mu mv r rand i (s, c))) ! i = 0.1 + 10 * real_of_int (rand (c + 6)) * r"
  using assms by (simp_all add: arrays_ok_def init_body_def Let_def)

lemma init_prefix:
  assumes ok: "arrays_ok num s" and m: "m \<le> nat num"
  shows "arrays_ok num (fst (fold (init_body mp mu mv r rand) [0..<m] (s, c))) \<and>
    snd (fold (init_body mp mu mv r rand) [0..<m] (s, c)) = c + 7 * m \<and>
    (\<forall>k<m. x (fst (fold (init_body mp mu mv r rand) [0..<m] (s, c))) ! k =
               mp + mu * real_of_int (rand (c + 7 * k)) * r \<and>
            y (fst (fold (init_body mp mu mv r rand) [0..<m] (s, c))) ! k =
               mp + mu * real_of_int (rand (c + 7 * k + 1)) * r \<and>
            z (fst (fold (init_body mp mu mv r rand) [0..<m] (s, c))) ! k =
               0 + mu * real_of_int (rand (c + 7 * k + 2)) * r \<and>
            vx (fst (fold (init_body mp mu mv r rand) [0..<m] (s, c))) ! k =
               - mv + 2 * mv * real_of_int (rand (c + 7 * k + 3)) * r \<and>
            vy (fst (fold (init_body mp mu mv r rand) [0..<m] (s, c))) ! k =
               - mv + 2 * mv * real_of_int (rand (c + 7 * k + 4)) * r \<and>
            vz (fst (fold (init_body mp mu mv r rand) [0..<m] (s, c))) ! k =
               - mv + 2 * mv * real_of_int (rand (c + 7 * k + 5)) * r \<and>
            mass (fst (fold (init_body mp mu mv r rand) [0..<m] (s, c))) ! k =
               0.1 + 10 * real_of_int (rand (c + 7 * k + 6)) * r)"
  using m
proof (induction m)
  case 0
  show ?case using ok by simp
next
  case (Suc m)
  obtain t d where td: "fold (init_body mp mu mv r rand) [0..<m] (s, c) = (t, d)"
    by (cases "fold (init_body mp mu mv r rand) [0..<m] (s, c)")
  have m: "m < nat num" using Suc.prems by simp
  have IH: "arrays_ok num t \<and> d = c + 7 * m \<and>
    (\<forall>k<m. x t ! k = mp + mu * real_of_int (rand (c + 7 * k)) * r \<and>
            y t ! k = mp + mu * real_of_int (rand (c + 7 * k + 1)) * r \<and>
            z t ! k = 0 + mu * real_of_int (rand (c + 7 * k + 2)) * r \<and>
            vx t ! k = - mv + 2 * mv * real_of_int (rand (c + 7 * k + 3)) * r \<and>
            vy t ! k = - mv + 2 * mv * real_of_int (rand (c + 7 * k + 4)) * r \<and>
            vz t ! k = - mv + 2 * mv * real_of_int (rand (c + 7 * k + 5)) * r \<and>
            mass t ! k = 0.1 + 10 * real_of_int (rand (c + 7 * k + 6)) * r)"
    using Suc.IH m by (simp add: td)
  have okt: "arrays_ok num t" and d: "d = c + 7 * m" using IH by blast+
  have unf: "fold (init_body mp mu mv r rand) [0..<Suc m] (s, c) = init_body mp mu mv r rand m (t, d)"
    by (simp add: td)
  have C: "x (fst (init_body mp mu mv r rand m (t, d))) ! k = mp + mu * real_of_int (rand (c + 7 * k)) * r \<and>
            y (fst (init_body mp mu mv r rand m (t, d))) ! k = mp + mu * real_of_int (rand (c + 7 * k + 1)) * r \<and>
            z (fst (init_body mp mu mv r rand m (t, d))) ! k = 0 + mu * real_of_int (rand (c + 7 * k + 2)) * r \<and>
            vx (fst (init_body mp mu mv r rand m (t, d))) ! k = - mv + 2 * mv * real_of_int (rand (c + 7 * k + 3)) * r \<and>
            vy (fst (init_body mp mu mv r rand m (t, d))) ! k = - mv + 2 * mv * real_of_int (rand (c + 7 * k + 4)) * r \<and>
            vz (fst (init_body mp mu mv r rand m (t, d))) ! k = - mv + 2 * mv * real_of_int (rand (c + 7 * k + 5)) * r \<and>
            mass (fst (init_body mp mu mv r rand m (t, d))) ! k = 0.1 + 10 * real_of_int (rand (c + 7 * k + 6)) * r"
    if "k < Suc m" for k
  proof (cases "k = m")
    case True
    show ?thesis unfolding True by (simp add: init_body_self [OF okt m] d)
  next
    case False
    then have "k < m" using that by simp
    then show ?thesis using IH False by (simp add: init_body_other)
  qed
  show ?case unfolding unf using C init_body_arrays_ok [OF okt] by (simp add: init_body_frame d)
qed

lemma init_rc: "fst (init RAND_MAX rand c s num) = 0"
  by (simp add: init_def Let_def split: prod.split)

lemma init_state:
  "fst (snd (init RAND_MAX rand c s num)) =
     fst (fold (init_body (- 50) 100 5 (1 / real_of_int RAND_MAX) rand) [0..<nat num] (s, c))"
  by (simp add: init_def Let_def split: prod.split)

lemma scaled_bounds:
  fixes a w :: real
  assumes R: "0 < R" and v: "0 \<le> v" "v \<le> R" and w: "0 \<le> w"
  shows "a \<le> a + w * real_of_int v * (1 / real_of_int R)"
    and "a + w * real_of_int v * (1 / real_of_int R) \<le> a + w"
proof -
  have q: "0 \<le> real_of_int v / real_of_int R" "real_of_int v / real_of_int R \<le> 1"
    using R v by simp_all
  have e: "w * real_of_int v * (1 / real_of_int R) = w * (real_of_int v / real_of_int R)" by simp
  have "0 \<le> w * (real_of_int v / real_of_int R)"
    using q w by (intro mult_nonneg_nonneg)
  then show "a \<le> a + w * real_of_int v * (1 / real_of_int R)"
    unfolding e by linarith
  have "w * (real_of_int v / real_of_int R) \<le> w * 1"
    using q w by (intro mult_left_mono) simp_all
  then show "a + w * real_of_int v * (1 / real_of_int R) \<le> a + w"
    unfolding e by linarith
qed

lemma scaled_strict:
  fixes a w :: real
  assumes R: "0 < R" and v: "v < R" and w: "0 < w"
  shows "a + w * real_of_int v * (1 / real_of_int R) < a + w"
proof -
  have q: "real_of_int v / real_of_int R < 1" using R v by simp
  have e: "w * real_of_int v * (1 / real_of_int R) = w * (real_of_int v / real_of_int R)" by simp
  have "w * (real_of_int v / real_of_int R) < w * 1"
    using q w by (intro mult_strict_left_mono) simp_all
  then show ?thesis unfolding e by linarith
qed

lemma scaled_top:
  fixes a w :: real
  assumes R: "0 < R" and w: "0 < w"
  shows "(a + w * real_of_int v * (1 / real_of_int R) = a + w) = (v = R)"
proof
  assume "a + w * real_of_int v * (1 / real_of_int R) = a + w"
  then have "w * (real_of_int v / real_of_int R) = w * 1" by simp
  then have "real_of_int v / real_of_int R = 1" using w by (simp only: mult_cancel_left) simp
  then have "real_of_int v = real_of_int R" using R by simp
  then show "v = R" by simp
next
  assume "v = R"
  then show "a + w * real_of_int v * (1 / real_of_int R) = a + w" using R by simp
qed

section \<open>The driver\<close>

lemma time_loop_output:
  "\<exists>s' com' coms. length coms = length ts \<and>
     fold (time_body num totalMass) ts (s, com, out) =
       (s', com', out @ map2 EndOfTimestep ts coms)"
proof (induction ts arbitrary: s com out)
  case Nil
  show ?case by (intro exI [of _ s] exI [of _ com] exI [of _ "[]"]) simp
next
  case (Cons t ts)
  obtain s1 com1 where b: "time_body num totalMass t (s, com, out) = (s1, com1, out @ [EndOfTimestep t com1])"
    by (simp add: time_body_def Let_def)
  obtain s' com' coms where l: "length coms = length ts"
    and f: "fold (time_body num totalMass) ts (s1, com1, out @ [EndOfTimestep t com1]) =
            (s', com', (out @ [EndOfTimestep t com1]) @ map2 EndOfTimestep ts coms)"
    using Cons.IH by blast
  have "length (com1 # coms) = length (t # ts)" using l by simp
  moreover have "fold (time_body num totalMass) (t # ts) (s, com, out) =
      (s', com', out @ map2 EndOfTimestep (t # ts) (com1 # coms))"
    by (simp add: b f)
  ultimately show ?case by blast
qed

lemma main_None:
  "main argv RAND_MAX rand None = (- 99, [Initializing NUM, MallocError])"
  by (simp add: main_def)

lemma main_Some:
  "\<exists>c0 coms cf. length coms = length [1..TS] \<and>
     main argv RAND_MAX rand (Some s) =
       (0, [Initializing NUM, Malloced, InitComplete, AtT0 c0, NowIntegrate TS] @
           map2 EndOfTimestep [1..TS] coms @ [TimeTaken NUM TS, CentreOfMass cf])"
proof -
  obtain s1 c1 where i: "init RAND_MAX rand 0 s NUM = (0, s1, c1)"
    using init_rc [of RAND_MAX rand 0 s NUM] by (cases "init RAND_MAX rand 0 s NUM") simp
  let ?tm = "total_mass (mass s1) NUM"
  let ?c0 = "calc_centre_mass (0, 0, 0) (x s1) (y s1) (z s1) (mass s1) ?tm NUM"
  let ?out = "[Initializing NUM, Malloced, InitComplete, AtT0 ?c0, NowIntegrate TS]"
  obtain s' com' coms where l: "length coms = length [1..TS]"
    and f: "fold (time_body NUM ?tm) [1..TS] (s1, ?c0, ?out) =
            (s', com', ?out @ map2 EndOfTimestep [1..TS] coms)"
    using time_loop_output [of "[1..TS]" NUM ?tm s1 ?c0 ?out] by blast
  have "main argv RAND_MAX rand (Some s) =
       (0, ?out @ map2 EndOfTimestep [1..TS] coms @
           [TimeTaken NUM TS, CentreOfMass (calc_centre_mass com' (x s') (y s') (z s') (mass s') ?tm NUM)])"
    by (simp add: main_def i f Let_def)
  then show ?thesis using l by blast
qed

lemma upto_TS: "[1..TS] = [1, 2, 3, 4, 5, 6, 7, 8, 9, 10]"
  by (simp add: TS_def upto_rec1)

lemma time_body_mass:
  "mass (fst (time_body num totalMass t (s, com, out))) = mass s"
  by (simp add: time_body_def Let_def step_mass)

lemma time_loop_mass:
  "mass (fst (fold (time_body num totalMass) ts (s, com, out))) = mass s"
proof (induction ts arbitrary: s com out)
  case Nil
  show ?case by simp
next
  case (Cons t ts)
  obtain s1 com1 out1 where b: "time_body num totalMass t (s, com, out) = (s1, com1, out1)"
    by (cases "time_body num totalMass t (s, com, out)")
  have "mass s1 = mass s" using time_body_mass [of num totalMass t s com out] by (simp add: b)
  then show ?case using Cons.IH [of s1 com1 out1] by (simp add: b)
qed

lemma time_body_recomputing_eq:
  "time_body_recomputing num t (s, com, out) = time_body num (total_mass (mass s) num) t (s, com, out)"
  by (simp add: time_body_recomputing_def time_body_def Let_def step_mass)

lemma time_loop_recomputing_eq:
  "fold (time_body_recomputing num) ts (s, com, out) =
   fold (time_body num (total_mass (mass s) num)) ts (s, com, out)"
proof (induction ts arbitrary: s com out)
  case Nil
  show ?case by simp
next
  case (Cons t ts)
  let ?tm = "total_mass (mass s) num"
  obtain s1 com1 out1 where b: "time_body num ?tm t (s, com, out) = (s1, com1, out1)"
    by (cases "time_body num ?tm t (s, com, out)")
  have m: "mass s1 = mass s" using time_body_mass [of num ?tm t s com out] by (simp add: b)
  show ?case
    by (simp add: time_body_recomputing_eq b Cons.IH m)
qed

text \<open>
  The output of a run whose allocation succeeded, in full: \<open>report k\<close> is the centre of
  mass after \<open>k\<close> steps from the initialized state, taken with the total mass of that state.
\<close>

lemma time_body_eq:
  "time_body num totalMass t (s, com, out) =
     (step num s,
      calc_centre_mass (0, 0, 0) (x (step num s)) (y (step num s)) (z (step num s))
        (mass (step num s)) totalMass num,
      out @ [EndOfTimestep t
               (calc_centre_mass (0, 0, 0) (x (step num s)) (y (step num s)) (z (step num s))
                  (mass (step num s)) totalMass num)])"
  by (simp add: time_body_def Let_def calc_centre_mass_com [of com])

lemma time_loop_exact:
  "\<exists>com'. fold (time_body num totalMass) ts (s, com, out) =
     ((step num ^^ length ts) s, com',
      out @ map2 (\<lambda>t k. EndOfTimestep t
                 (calc_centre_mass (0, 0, 0) (x ((step num ^^ k) s)) (y ((step num ^^ k) s))
                    (z ((step num ^^ k) s)) (mass ((step num ^^ k) s)) totalMass num))
              ts [1..<Suc (length ts)])"
proof (induction ts arbitrary: s com out)
  case Nil
  show ?case by (intro exI [of _ com]) simp
next
  case (Cons t ts)
  let ?C = "\<lambda>st. calc_centre_mass (0, 0, 0) (x st) (y st) (z st) (mass st) totalMass num"
  obtain com' where f: "fold (time_body num totalMass) ts
        (step num s, ?C (step num s), out @ [EndOfTimestep t (?C (step num s))]) =
     ((step num ^^ length ts) (step num s), com',
      (out @ [EndOfTimestep t (?C (step num s))]) @
        map2 (\<lambda>t k. EndOfTimestep t (?C ((step num ^^ k) (step num s)))) ts [1..<Suc (length ts)])"
    using Cons.IH [of "step num s" "?C (step num s)" "out @ [EndOfTimestep t (?C (step num s))]"]
    by blast
  have u: "[1..<Suc (length (t # ts))] = 1 # map Suc [1..<Suc (length ts)]"
    by (simp add: upt_conv_Cons map_Suc_upt del: upt_Suc)
  have "fold (time_body num totalMass) (t # ts) (s, com, out) =
     ((step num ^^ length (t # ts)) s, com',
      out @ map2 (\<lambda>t k. EndOfTimestep t (?C ((step num ^^ k) s))) (t # ts)
              [1..<Suc (length (t # ts))])"
    unfolding u
    by (auto simp add: time_body_eq f funpow_swap1 zip_map2 simp del: upt_Suc)
  then show ?case by blast
qed

lemma upto_as_upt: "[1..10] = map int [1..<11]"
  by (simp add: upto_rec1 upt_rec)

lemma main_Some_exact:
  "let s1 = fst (snd (init RAND_MAX rand 0 s NUM));
       totalMass = total_mass (mass s1) NUM;
       report = (\<lambda>k. calc_centre_mass (0, 0, 0)
                  (x ((step NUM ^^ k) s1)) (y ((step NUM ^^ k) s1)) (z ((step NUM ^^ k) s1))
                  (mass ((step NUM ^^ k) s1)) totalMass NUM)
   in main argv RAND_MAX rand (Some s) =
        (0, [Initializing NUM, Malloced, InitComplete, AtT0 (report 0), NowIntegrate TS] @
            map (\<lambda>k. EndOfTimestep (int k) (report k)) [1..<11] @
            [TimeTaken NUM TS, CentreOfMass (report 10)])"
proof -
  obtain s1 c1 where i: "init RAND_MAX rand 0 s NUM = (0, s1, c1)"
    using init_rc [of RAND_MAX rand 0 s NUM] by (cases "init RAND_MAX rand 0 s NUM") simp
  let ?tm = "total_mass (mass s1) NUM"
  let ?C = "\<lambda>st. calc_centre_mass (0, 0, 0) (x st) (y st) (z st) (mass st) ?tm NUM"
  let ?out = "[Initializing NUM, Malloced, InitComplete, AtT0 (?C s1), NowIntegrate TS]"
  have ts: "[1..TS] = map int [1..<11]" by (simp add: TS_def upto_as_upt)
  obtain com' where f: "fold (time_body NUM ?tm) [1..TS] (s1, ?C s1, ?out) =
     ((step NUM ^^ length [1..TS]) s1, com',
      ?out @ map2 (\<lambda>t k. EndOfTimestep t (?C ((step NUM ^^ k) s1))) [1..TS]
               [1..<Suc (length [1..TS])])"
    using time_loop_exact [of NUM ?tm "[1..TS]" s1 "?C s1" ?out] by blast
  have l: "length [1..TS] = 10" by (simp add: ts)
  have z: "map2 (\<lambda>t k. EndOfTimestep t (?C ((step NUM ^^ k) s1))) [1..TS] [1..<Suc (length [1..TS])] =
           map (\<lambda>k. EndOfTimestep (int k) (?C ((step NUM ^^ k) s1))) [1..<11]"
    unfolding l unfolding ts by (simp add: zip_map1 zip_same_conv_map del: upt_Suc)
  have f': "fold (time_body NUM ?tm) [1..TS] (s1, ?C s1, ?out) =
     ((step NUM ^^ 10) s1, com',
      ?out @ map (\<lambda>k. EndOfTimestep (int k) (?C ((step NUM ^^ k) s1))) [1..<11])"
    using f unfolding z unfolding l .
  show ?thesis
    unfolding Let_def
    by (simp add: main_def i f' Let_def calc_centre_mass_com [of com'] del: upt_Suc)
qed

section \<open>Values on the two-particle example\<close>

lemma two_body_spec_d: "spec_d [0, 3] [0, 4] [0, 0] 0 (Suc 0) = 5"
  by (simp add: spec_d_def)

section \<open>Claims\<close>

text \<open>
  C1. Take any state whose arrays have \<open>num\<close> elements and any particle \<open>i < num\<close>. One
  step leaves in the snapshot arrays the masses and positions the step started from, and
  adds to the velocity of \<open>i\<close>, per component, the sum over all \<open>j \<noteq> i\<close> of
  \<open>(F / mass_i) * (d\<^sub>v / d)\<close>, with \<open>d\<^sub>v = old_pos[j] - old_pos[i]\<close>,
  \<open>d = max(|d\<^sub>v|, 0.01)\<close> and \<open>F = G * mass_i * old_mass_j / d\<^sup>2\<close>. The new position
  of \<open>i\<close> is its snapshot position plus its new velocity. Both sides divide by \<open>mass_i\<close>
  in the same way, so nothing is assumed about the masses. The program reads the live
  \<open>x[i]\<close>, \<open>y[i]\<close>, \<open>z[i]\<close> in the displacement; when the loop over \<open>i\<close> reaches \<open>i\<close>
  (the state \<open>si\<close>), these are still the snapshot values.
\<close>

theorem C1_step_update:
  assumes "arrays_ok num s" and "i < nat num"
  shows "let s' = step num s; si = fold (LOOP2_body num) [0..<i] (LOOP1 num s) in
      old_x s' = x s \<and> old_y s' = y s \<and> old_z s' = z s \<and> old_mass s' = mass s \<and>
      x si ! i = old_x s' ! i \<and> y si ! i = old_y s' ! i \<and> z si ! i = old_z s' ! i \<and>
      vx s' ! i = vx s ! i +
        (\<Sum>j\<in>{0..<nat num} - {i}.
           spec_accel (mass s') (old_mass s') (old_x s') (old_y s') (old_z s') (old_x s') i j) \<and>
      vy s' ! i = vy s ! i +
        (\<Sum>j\<in>{0..<nat num} - {i}.
           spec_accel (mass s') (old_mass s') (old_x s') (old_y s') (old_z s') (old_y s') i j) \<and>
      vz s' ! i = vz s ! i +
        (\<Sum>j\<in>{0..<nat num} - {i}.
           spec_accel (mass s') (old_mass s') (old_x s') (old_y s') (old_z s') (old_z s') i j) \<and>
      x s' ! i = old_x s' ! i + vx s' ! i \<and>
      y s' ! i = old_y s' ! i + vy s' ! i \<and>
      z s' ! i = old_z s' ! i + vz s' ! i"
proof -
  note ok = assms(1) and i = assms(2)
  have pa: "pair_accel (LOOP1 num s) i j =
    (spec_accel (mass s) (mass s) (x s) (y s) (z s) (x s) i j,
     spec_accel (mass s) (mass s) (x s) (y s) (z s) (y s) i j,
     spec_accel (mass s) (mass s) (x s) (y s) (z s) (z s) i j)" for j
    using pair_accel_snapshot [of "LOOP1 num s" i j]
    by (simp add: LOOP1_frame LOOP1_snapshot [OF ok])
  show ?thesis
    unfolding Let_def
    by (simp add: step_snapshot [OF ok] step_mass step_particle [OF ok i] inner_fold pa
        live_position_at_i [OF ok i] fold_LOOP2_frame LOOP1_snapshot [OF ok])
qed

theorem C1_witness:
  "arrays_ok 2 two_body \<and> (0::nat) < nat 2 \<and>
   old_x (step 2 two_body) = [0, 3] \<and> old_mass (step 2 two_body) = [1, 2] \<and>
   vx (step 2 two_body) ! 0 = 3 / 62500 \<and> x (step 2 two_body) ! 0 = 3 / 62500 \<and>
   vy (step 2 two_body) ! 0 = 4 / 62500"
proof -
  have ok: "arrays_ok 2 two_body" by (simp add: two_body_def arrays_ok_def)
  have i: "(0::nat) < nat 2" by simp
  have set: "{0..<nat 2} - {0} = {Suc 0}" by auto
  have snap: "old_x (step 2 two_body) = [0, 3]" "old_y (step 2 two_body) = [0, 4]"
    "old_z (step 2 two_body) = [0, 0]" "old_mass (step 2 two_body) = [1, 2]"
    "mass (step 2 two_body) = [1, 2]"
    by (simp_all add: step_snapshot [OF ok] step_mass) (simp_all add: two_body_def)
  have v0: "vx two_body ! 0 = 0" "vy two_body ! 0 = 0" by (simp_all add: two_body_def)
  have "vx (step 2 two_body) ! 0 = 3 / 62500 \<and> x (step 2 two_body) ! 0 = 3 / 62500 \<and>
   vy (step 2 two_body) ! 0 = 4 / 62500"
    using C1_step_update [OF ok i] unfolding Let_def set snap v0
    by (simp add: spec_accel_def two_body_spec_d spec_F_def GRAVCONST_def)
  then show ?thesis using ok snap by simp
qed

text \<open>
  C2. With a single particle, any number \<open>t\<close> of steps leaves the mass and the velocity
  as they were, and the position after \<open>t\<close> steps is the initial position plus \<open>t\<close> times
  the velocity. The position is therefore not left unchanged: a particle with velocity
  \<open>(1, 0, 0)\<close> at the origin is at \<open>x = 1\<close> after one step.
\<close>

theorem C2_single_particle:
  assumes "arrays_ok 1 s"
  shows "let s' = (step 1 ^^ t) s in
      mass s' = mass s \<and> vx s' = vx s \<and> vy s' = vy s \<and> vz s' = vz s \<and>
      x s' ! 0 = x s ! 0 + real t * vx s ! 0 \<and>
      y s' ! 0 = y s ! 0 + real t * vy s ! 0 \<and>
      z s' ! 0 = z s ! 0 + real t * vz s ! 0"
proof (induction t)
  case 0
  show ?case by simp
next
  case (Suc t)
  have ok: "arrays_ok 1 ((step 1 ^^ t) s)" by (rule steps_arrays_ok [OF assms])
  show ?case
    using Suc.IH by (simp add: Let_def single_step [OF ok] step_mass algebra_simps)
qed

theorem C2_witness:
  "arrays_ok 1 one_body \<and>
   (let s' = (step 1 ^^ 3) one_body in
      mass s' = mass one_body \<and> vx s' = vx one_body \<and> vy s' = vy one_body \<and> vz s' = vz one_body \<and>
      x s' ! 0 = 3 \<and> y s' ! 0 = 0 \<and> z s' ! 0 = 0)"
proof -
  have ok: "arrays_ok 1 one_body" by (simp add: one_body_def arrays_ok_def)
  show ?thesis using ok C2_single_particle [OF ok, of 3] by (simp add: Let_def one_body_def)
qed

theorem C2_counterexample:
  "arrays_ok 1 one_body \<and> x one_body = [0] \<and> x (step 1 one_body) = [1] \<and>
   x (step 1 one_body) \<noteq> x one_body"
  by (simp add: one_body_def arrays_ok_def step_def LOOP1_def LOOP2_def LOOP1_body_def
      LOOP2_body_def inner_body_eq)

text \<open>
  C3. The driver does not read its command line: for every \<open>argv\<close> the run is the same,
  with \<open>NUM = 20000\<close> particles and \<open>TS = 10\<close> time steps. When the allocation succeeds,
  the run initializes 20000 particles and prints: the announcement for 20000 particles, the
  centre of mass of the initialized state, the announcement of 10 steps, for each
  \<open>k = 1, ..., 10\<close> the centre of mass after \<open>k\<close> steps on 20000 particles, and the summary
  for 20000 particles and 10 steps with the centre of mass after the tenth step. A command
  line asking for 5 particles and 3 steps changes none of this.
\<close>

theorem C3_parameters_hard_wired:
  "main argv RAND_MAX rand mem = main argv' RAND_MAX rand mem \<and>
   main argv RAND_MAX rand None = (- 99, [Initializing 20000, MallocError]) \<and>
   (let s1 = fst (snd (init RAND_MAX rand 0 s 20000));
        totalMass = total_mass (mass s1) 20000;
        report = (\<lambda>k. calc_centre_mass (0, 0, 0)
                   (x ((step 20000 ^^ k) s1)) (y ((step 20000 ^^ k) s1))
                   (z ((step 20000 ^^ k) s1)) (mass ((step 20000 ^^ k) s1)) totalMass 20000)
    in main argv RAND_MAX rand (Some s) =
         (0, [Initializing 20000, Malloced, InitComplete, AtT0 (report 0), NowIntegrate 10] @
             map (\<lambda>k. EndOfTimestep (int k) (report k)) [1..<11] @
             [TimeTaken 20000 10, CentreOfMass (report 10)]))"
proof -
  have a: "main argv RAND_MAX rand mem = main argv' RAND_MAX rand mem"
    by (simp add: main_def)
  have b: "main argv RAND_MAX rand None = (- 99, [Initializing 20000, MallocError])"
    by (simp add: main_None NUM_def)
  show ?thesis
    using a b main_Some_exact [of RAND_MAX rand s argv]
    unfolding NUM_def TS_def by blast
qed

theorem C3_counterexample:
  "arrays_ok NUM fresh_memory \<and>
   hd (snd (main [''md'', ''5'', ''3''] 2147483647 rand_lowest (Some fresh_memory))) = Initializing 20000 \<and>
   TimeTaken 20000 10 \<in> set (snd (main [''md'', ''5'', ''3''] 2147483647 rand_lowest (Some fresh_memory))) \<and>
   Initializing 5 \<notin> set (snd (main [''md'', ''5'', ''3''] 2147483647 rand_lowest (Some fresh_memory))) \<and>
   TimeTaken 5 3 \<notin> set (snd (main [''md'', ''5'', ''3''] 2147483647 rand_lowest (Some fresh_memory)))"
proof -
  obtain c0 coms cf where "main [''md'', ''5'', ''3''] 2147483647 rand_lowest (Some fresh_memory) =
       (0, [Initializing NUM, Malloced, InitComplete, AtT0 c0, NowIntegrate TS] @
           map2 EndOfTimestep [1..TS] coms @ [TimeTaken NUM TS, CentreOfMass cf])"
    using main_Some [of "[''md'', ''5'', ''3'']" 2147483647 rand_lowest fresh_memory] by blast
  moreover have "arrays_ok NUM fresh_memory"
    by (simp add: arrays_ok_def fresh_memory_def NUM_def)
  ultimately show ?thesis by (auto simp: NUM_def TS_def)
qed

text \<open>
  C4. Let \<open>rand()\<close> return integers between \<open>0\<close> and \<open>RAND_MAX\<close>, with \<open>RAND_MAX > 0\<close>.
  Every particle that \<open>init\<close> produces has its mass in \<open>[0.1, 10.1]\<close>, \<open>x\<close> and \<open>y\<close> in
  \<open>[-50, 50]\<close>, \<open>z\<close> in \<open>[0, 100]\<close> and each velocity component in \<open>[-5, 5]\<close>. The
  intervals are closed: each of the seven values is at its upper end exactly when the draw
  that produced it returned \<open>RAND_MAX\<close> (for particle \<open>i\<close> the draws are numbered
  \<open>c + 7 * i\<close> to \<open>c + 7 * i + 6\<close>, in the order \<open>x\<close>, \<open>y\<close>, \<open>z\<close>, \<open>vx\<close>, \<open>vy\<close>, \<open>vz\<close>,
  mass). In particular, if \<open>rand()\<close> never returns \<open>RAND_MAX\<close>, all seven values lie
  strictly below the upper ends.
\<close>

theorem C4_init_ranges:
  assumes "0 < RAND_MAX" and "\<forall>k. 0 \<le> rand k \<and> rand k \<le> RAND_MAX"
    and "arrays_ok num s" and "i < nat num"
  shows "let s' = fst (snd (init RAND_MAX rand c s num)) in
      0.1 \<le> mass s' ! i \<and> mass s' ! i \<le> 10.1 \<and>
      - 50 \<le> x s' ! i \<and> x s' ! i \<le> 50 \<and>
      - 50 \<le> y s' ! i \<and> y s' ! i \<le> 50 \<and>
      0 \<le> z s' ! i \<and> z s' ! i \<le> 100 \<and>
      - 5 \<le> vx s' ! i \<and> vx s' ! i \<le> 5 \<and>
      - 5 \<le> vy s' ! i \<and> vy s' ! i \<le> 5 \<and>
      - 5 \<le> vz s' ! i \<and> vz s' ! i \<le> 5 \<and>
      (x s' ! i = 50) = (rand (c + 7 * i) = RAND_MAX) \<and>
      (y s' ! i = 50) = (rand (c + 7 * i + 1) = RAND_MAX) \<and>
      (z s' ! i = 100) = (rand (c + 7 * i + 2) = RAND_MAX) \<and>
      (vx s' ! i = 5) = (rand (c + 7 * i + 3) = RAND_MAX) \<and>
      (vy s' ! i = 5) = (rand (c + 7 * i + 4) = RAND_MAX) \<and>
      (vz s' ! i = 5) = (rand (c + 7 * i + 5) = RAND_MAX) \<and>
      (mass s' ! i = 10.1) = (rand (c + 7 * i + 6) = RAND_MAX) \<and>
      ((\<forall>k. rand k < RAND_MAX) \<longrightarrow>
         mass s' ! i < 10.1 \<and> x s' ! i < 50 \<and> y s' ! i < 50 \<and> z s' ! i < 100 \<and>
         vx s' ! i < 5 \<and> vy s' ! i < 5 \<and> vz s' ! i < 5)"
proof -
  note R = assms(1) and ok = assms(3) and i = assms(4)
  have r: "0 \<le> rand k" "rand k \<le> RAND_MAX" for k using assms(2) by simp_all
  note vals = init_prefix [OF ok order_refl, of "- 50" 100 5 "1 / real_of_int RAND_MAX" rand c,
      THEN conjunct2, THEN conjunct2, rule_format, OF i]
  have lo: "a \<le> a + w * real_of_int (rand k) * (1 / real_of_int RAND_MAX)"
    and hi: "a + w * real_of_int (rand k) * (1 / real_of_int RAND_MAX) \<le> a + w"
    if "0 \<le> w" for a w :: real and k
    using scaled_bounds [OF R r that] by simp_all
  have st: "a + w * real_of_int (rand k) * (1 / real_of_int RAND_MAX) < a + w"
    if "\<forall>k. rand k < RAND_MAX" "0 < w" for a w :: real and k
    using scaled_strict [OF R _ that(2), of "rand k" a] that(1) by simp
  have top: "(a + w * real_of_int (rand k) * (1 / real_of_int RAND_MAX) = a + w) =
             (rand k = RAND_MAX)"
    if "0 < w" for a w :: real and k
    by (rule scaled_top [OF R that])
  show ?thesis
    unfolding Let_def init_state
    apply (simp only: vals)
    apply (intro conjI impI)
    subgoal using lo [of 10 "0.1" "c + 7 * i + 6"] by simp
    subgoal using hi [of 10 "0.1" "c + 7 * i + 6"] by simp
    subgoal using lo [of 100 "- 50" "c + 7 * i"] by simp
    subgoal using hi [of 100 "- 50" "c + 7 * i"] by simp
    subgoal using lo [of 100 "- 50" "c + 7 * i + 1"] by simp
    subgoal using hi [of 100 "- 50" "c + 7 * i + 1"] by simp
    subgoal using lo [of 100 0 "c + 7 * i + 2"] by simp
    subgoal using hi [of 100 0 "c + 7 * i + 2"] by simp
    subgoal using lo [of "2 * 5" "- 5" "c + 7 * i + 3"] by simp
    subgoal using hi [of "2 * 5" "- 5" "c + 7 * i + 3"] by simp
    subgoal using lo [of "2 * 5" "- 5" "c + 7 * i + 4"] by simp
    subgoal using hi [of "2 * 5" "- 5" "c + 7 * i + 4"] by simp
    subgoal using lo [of "2 * 5" "- 5" "c + 7 * i + 5"] by simp
    subgoal using hi [of "2 * 5" "- 5" "c + 7 * i + 5"] by simp
    subgoal using top [of 100 "- 50" "c + 7 * i"] by simp
    subgoal using top [of 100 "- 50" "c + 7 * i + 1"] by simp
    subgoal using top [of 100 0 "c + 7 * i + 2"] by simp
    subgoal using top [of "2 * 5" "- 5" "c + 7 * i + 3"] by simp
    subgoal using top [of "2 * 5" "- 5" "c + 7 * i + 4"] by simp
    subgoal using top [of "2 * 5" "- 5" "c + 7 * i + 5"] by simp
    subgoal using top [of 10 "0.1" "c + 7 * i + 6"] by simp
    subgoal using st [of 10 "0.1" "c + 7 * i + 6"] by simp
    subgoal using st [of 100 "- 50" "c + 7 * i"] by simp
    subgoal using st [of 100 "- 50" "c + 7 * i + 1"] by simp
    subgoal using st [of 100 0 "c + 7 * i + 2"] by simp
    subgoal using st [of "2 * 5" "- 5" "c + 7 * i + 3"] by simp
    subgoal using st [of "2 * 5" "- 5" "c + 7 * i + 4"] by simp
    subgoal using st [of "2 * 5" "- 5" "c + 7 * i + 5"] by simp
    done
qed

theorem C4_witness:
  "(0::int) < 32767 \<and> (\<forall>k. 0 \<le> int (k mod 8) * 4096 \<and> int (k mod 8) * 4096 \<le> 32767) \<and>
   arrays_ok 2 two_body \<and> (1::nat) < nat 2 \<and>
   (\<forall>k. int (k mod 8) * 4096 < 32767) \<and>
   (let s' = fst (snd (init 32767 (\<lambda>k. int (k mod 8) * 4096) 0 two_body 2)) in
      0.1 \<le> mass s' ! 1 \<and> mass s' ! 1 < 10.1 \<and>
      - 50 \<le> x s' ! 1 \<and> x s' ! 1 < 50 \<and>
      - 50 \<le> y s' ! 1 \<and> y s' ! 1 < 50 \<and>
      0 \<le> z s' ! 1 \<and> z s' ! 1 < 100 \<and>
      - 5 \<le> vx s' ! 1 \<and> vx s' ! 1 < 5 \<and>
      - 5 \<le> vy s' ! 1 \<and> vy s' ! 1 < 5 \<and>
      - 5 \<le> vz s' ! 1 \<and> vz s' ! 1 < 5)"
proof -
  have R: "(0::int) < 32767" by simp
  have b: "0 \<le> int (k mod 8) * 4096 \<and> int (k mod 8) * 4096 < 32767" for k
  proof -
    have "k mod 8 < 8" by simp
    then have "int (k mod 8) \<le> 7" by linarith
    then show ?thesis by simp
  qed
  have r: "\<forall>k. 0 \<le> int (k mod 8) * 4096 \<and> int (k mod 8) * 4096 \<le> 32767"
    using b by (simp add: less_imp_le)
  have ok: "arrays_ok 2 two_body" by (simp add: two_body_def arrays_ok_def)
  have i: "(1::nat) < nat 2" by simp
  show ?thesis
    using R r ok i b C4_init_ranges [OF R r ok i, of 0]
    by (simp add: Let_def)
qed

theorem C4_counterexample:
  "arrays_ok 1 one_body \<and> range rand_highest \<subseteq> {0..2147483647} \<and>
   x (fst (snd (init 2147483647 rand_highest 0 one_body 1))) ! 0 = 50 \<and>
   \<not> x (fst (snd (init 2147483647 rand_highest 0 one_body 1))) ! 0 < 50 \<and>
   y (fst (snd (init 2147483647 rand_highest 0 one_body 1))) ! 0 = 50 \<and>
   z (fst (snd (init 2147483647 rand_highest 0 one_body 1))) ! 0 = 100 \<and>
   vx (fst (snd (init 2147483647 rand_highest 0 one_body 1))) ! 0 = 5 \<and>
   vy (fst (snd (init 2147483647 rand_highest 0 one_body 1))) ! 0 = 5 \<and>
   vz (fst (snd (init 2147483647 rand_highest 0 one_body 1))) ! 0 = 5 \<and>
   mass (fst (snd (init 2147483647 rand_highest 0 one_body 1))) ! 0 = 10.1"
  by (auto simp: init_def init_body_def one_body_def arrays_ok_def Let_def rand_highest_def)

text \<open>
  C5. For arrays of \<open>N\<close> elements and \<open>totalMass > 0\<close>, \<open>calc_centre_mass\<close> returns, per
  axis, the sum of \<open>mass_i * pos_i\<close> divided by \<open>totalMass\<close>, whatever \<open>com\<close> held before;
  and the two passes of its loop over \<open>axis\<close> give what a single pass of the loop body
  gives.
\<close>

theorem C5_centre_of_mass:
  assumes "0 < totalMass"
    and "length xs = nat N" and "length ys = nat N" and "length zs = nat N" and "length ms = nat N"
  shows "calc_centre_mass com xs ys zs ms totalMass N =
           ((\<Sum>i<nat N. ms ! i * xs ! i) / totalMass,
            (\<Sum>i<nat N. ms ! i * ys ! i) / totalMass,
            (\<Sum>i<nat N. ms ! i * zs ! i) / totalMass) \<and>
         calc_centre_mass com xs ys zs ms totalMass N = com_pass xs ys zs ms totalMass N com"
  by (simp add: calc_centre_mass_eq com_pass_eq)

theorem C5_witness:
  "(0::real) < 3 \<and> length [0, 3::real] = nat 2 \<and> length [0, 4::real] = nat 2 \<and>
   length [0, 0::real] = nat 2 \<and> length [1, 2::real] = nat 2 \<and>
   calc_centre_mass (7, 8, 9) [0, 3] [0, 4] [0, 0] [1, 2] 3 2 = (2, 8 / 3, 0) \<and>
   com_pass [0, 3] [0, 4] [0, 0] [1, 2] 3 2 (7, 8, 9) = (2, 8 / 3, 0)"
proof -
  have s: "{..<2::nat} = {0, Suc 0}" by auto
  have "nat 2 = Suc (Suc 0)" by simp
  show ?thesis
    using C5_centre_of_mass [of 3 "[0, 3]" 2 "[0, 4]" "[0, 0]" "[1, 2]" "(7, 8, 9)"]
    by (simp add: s com_pass_eq)
qed

text \<open>
  C6. When \<open>mass[i]\<close> is not zero it cancels in the computation for a pair: the
  acceleration \<open>(F / mass_i) * d\<^sub>v / d\<close> that the program computes is
  \<open>G * old_mass_j / d\<^sup>2 * (d\<^sub>v / d)\<close>. Hence replacing the mass of particle \<open>i\<close> by any
  other nonzero value changes neither the velocity nor the position that one step gives to
  particle \<open>i\<close>.
\<close>

theorem C6_mass_cancels:
  assumes "arrays_ok num s" and "i < nat num" and "mass s ! i \<noteq> 0" and "m' \<noteq> 0"
  shows "(\<forall>j. pair_accel s i j =
     (GRAVCONST * old_mass s ! j / (pair_d s i j)\<^sup>2 * ((old_x s ! j - x s ! i) / pair_d s i j),
      GRAVCONST * old_mass s ! j / (pair_d s i j)\<^sup>2 * ((old_y s ! j - y s ! i) / pair_d s i j),
      GRAVCONST * old_mass s ! j / (pair_d s i j)\<^sup>2 * ((old_z s ! j - z s ! i) / pair_d s i j))) \<and>
    (let s2 = s\<lparr>mass := (mass s)[i := m']\<rparr> in
       vx (step num s2) ! i = vx (step num s) ! i \<and>
       vy (step num s2) ! i = vy (step num s) ! i \<and>
       vz (step num s2) ! i = vz (step num s) ! i \<and>
       x (step num s2) ! i = x (step num s) ! i \<and>
       y (step num s2) ! i = y (step num s) ! i \<and>
       z (step num s2) ! i = z (step num s) ! i)"
proof -
  note ok = assms(1) and i = assms(2) and mi = assms(3) and m' = assms(4)
  let ?s2 = "s\<lparr>mass := (mass s)[i := m']\<rparr>"
  have ok2: "arrays_ok num ?s2" using ok by (simp add: arrays_ok_def)
  have il: "i < length (mass s)" using ok i by (simp add: arrays_ok_def)
  have m1: "mass (LOOP1 num s) ! i \<noteq> 0" using mi by (simp add: LOOP1_frame)
  have m2: "mass (LOOP1 num ?s2) ! i \<noteq> 0" using m' il by (simp add: LOOP1_frame)
  have d: "pair_d (LOOP1 num ?s2) i j = pair_d (LOOP1 num s) i j" for j
    by (simp add: pair_d_def LOOP1_frame LOOP1_snapshot [OF ok] LOOP1_snapshot [OF ok2])
  have pa: "pair_accel (LOOP1 num ?s2) i j = pair_accel (LOOP1 num s) i j" if "j \<noteq> i" for j
    unfolding pair_accel_cancel [OF m1] pair_accel_cancel [OF m2] d
    using that by (simp add: LOOP1_frame LOOP1_snapshot [OF ok] LOOP1_snapshot [OF ok2])
  have fold_eq: "fold (inner_body (LOOP1 num ?s2) i) [0..<nat num] (0, 0, 0) =
                 fold (inner_body (LOOP1 num s) i) [0..<nat num] (0, 0, 0)"
    unfolding inner_fold by (auto intro!: sum.cong simp: pa)
  have "vx (step num ?s2) ! i = vx (step num s) ! i \<and>
       vy (step num ?s2) ! i = vy (step num s) ! i \<and>
       vz (step num ?s2) ! i = vz (step num s) ! i \<and>
       x (step num ?s2) ! i = x (step num s) ! i \<and>
       y (step num ?s2) ! i = y (step num s) ! i \<and>
       z (step num ?s2) ! i = z (step num s) ! i"
    by (simp add: step_particle [OF ok i] step_particle [OF ok2 i] fold_eq)
  then show ?thesis
    using pair_accel_cancel [OF mi] by (simp add: Let_def)
qed

theorem C6_witness:
  "arrays_ok 2 two_body \<and> (0::nat) < nat 2 \<and> mass two_body ! 0 \<noteq> 0 \<and> (5::real) \<noteq> 0 \<and>
   pair_accel two_body 0 1 = (3 / 62500, 4 / 62500, 0) \<and>
   (let s2 = two_body\<lparr>mass := (mass two_body)[0 := 5]\<rparr> in
      mass s2 = [5, 2] \<and>
      vx (step 2 s2) ! 0 = vx (step 2 two_body) ! 0 \<and>
      vy (step 2 s2) ! 0 = vy (step 2 two_body) ! 0 \<and>
      vz (step 2 s2) ! 0 = vz (step 2 two_body) ! 0 \<and>
      x (step 2 s2) ! 0 = x (step 2 two_body) ! 0 \<and>
      y (step 2 s2) ! 0 = y (step 2 two_body) ! 0 \<and>
      z (step 2 s2) ! 0 = z (step 2 two_body) ! 0)"
proof -
  have ok: "arrays_ok 2 two_body" by (simp add: two_body_def arrays_ok_def)
  have i: "(0::nat) < nat 2" by simp
  have m: "mass two_body ! 0 \<noteq> 0" by (simp add: two_body_def)
  have m': "(5::real) \<noteq> 0" by simp
  have d: "pair_d two_body 0 (Suc 0) = 5" by (simp add: pair_d_def two_body_def)
  have v: "old_mass two_body ! Suc 0 = 2" "old_x two_body ! Suc 0 - x two_body ! 0 = 3"
    "old_y two_body ! Suc 0 - y two_body ! 0 = 4" "old_z two_body ! Suc 0 - z two_body ! 0 = 0"
    "(mass two_body)[0 := 5] = [5, 2]"
    by (simp_all add: two_body_def)
  note c6 = C6_mass_cancels [OF ok i m m']
  have "pair_accel two_body 0 1 = (3 / 62500, 4 / 62500, 0)"
    using c6 [THEN conjunct1, rule_format, of 1] by (simp add: d v GRAVCONST_def)
  then show ?thesis
    using ok i m c6 [THEN conjunct2] by (simp add: Let_def v)
qed

text \<open>
  C7. The step integrator never writes to the mass array: after one step, and after any
  number of steps, the masses are the ones the run started from, whatever the state. The
  snapshot loop writes only the four snapshot arrays, and the update loop writes only the
  position and velocity arrays.
\<close>

theorem C7_step_preserves_mass:
  "mass (step num s) = mass s \<and> mass ((step num ^^ t) s) = mass s \<and>
   mass (LOOP1 num s) = mass s \<and> x (LOOP1 num s) = x s \<and> y (LOOP1 num s) = y s \<and>
   z (LOOP1 num s) = z s \<and> vx (LOOP1 num s) = vx s \<and> vy (LOOP1 num s) = vy s \<and>
   vz (LOOP1 num s) = vz s \<and>
   mass (LOOP2 num s) = mass s \<and> old_mass (LOOP2 num s) = old_mass s \<and>
   old_x (LOOP2 num s) = old_x s \<and> old_y (LOOP2 num s) = old_y s \<and>
   old_z (LOOP2 num s) = old_z s"
  by (simp add: step_mass steps_mass LOOP1_frame LOOP2_frame)

text \<open>
  C8. \<open>init\<close> returns 0 on every input. So \<open>main\<close> never prints the message of a failed
  initialization, whatever its inputs; the only run that ends with status \<open>-99\<close> is the one
  in which the allocation failed, and every other run ends with status 0.
\<close>

theorem C8_init_never_fails:
  "fst (init RAND_MAX rand c s num) = 0 \<and>
   InitError \<notin> set (snd (main argv RAND_MAX rand mem)) \<and>
   main argv RAND_MAX rand None = (- 99, [Initializing NUM, MallocError]) \<and>
   fst (main argv RAND_MAX rand (Some s)) = 0"
proof -
  have a: "InitError \<notin> set (snd (main argv RAND_MAX rand mem))"
  proof (cases mem)
    case None
    show ?thesis by (simp add: None main_None)
  next
    case (Some m)
    obtain c0 coms cf where "main argv RAND_MAX rand (Some m) =
       (0, [Initializing NUM, Malloced, InitComplete, AtT0 c0, NowIntegrate TS] @
           map2 EndOfTimestep [1..TS] coms @ [TimeTaken NUM TS, CentreOfMass cf])"
      using main_Some [of argv RAND_MAX rand m] by blast
    then show ?thesis by (auto simp: Some)
  qed
  have b: "fst (main argv RAND_MAX rand (Some s)) = 0"
    using main_Some [of argv RAND_MAX rand s] by auto
  show ?thesis using a b by (simp add: init_rc main_None)
qed

text \<open>
  C9. Start from any state whose arrays have \<open>num\<close> elements, run any number \<open>t\<close> of
  steps, and look into the next step at the moment the loop over \<open>i\<close> reaches particle \<open>i\<close>
  (state \<open>si\<close>) and at the moment it reaches particle \<open>j\<close> (state \<open>sj\<close>). At both
  moments the snapshot of the masses is the mass array itself, which still holds the initial
  masses, and the force \<open>F\<close> computed for the pair \<open>(i, j)\<close> is the one computed for
  \<open>(j, i)\<close>.
\<close>

theorem C9_force_symmetric:
  assumes "arrays_ok num s0" and "i < nat num" and "j < nat num"
  shows "let s = (step num ^^ t) s0;
             si = fold (LOOP2_body num) [0..<i] (LOOP1 num s);
             sj = fold (LOOP2_body num) [0..<j] (LOOP1 num s)
         in old_mass si = mass si \<and> old_mass sj = mass sj \<and> mass si = mass s0 \<and>
            pair_F si i j = pair_F sj j i"
proof -
  have ok: "arrays_ok num ((step num ^^ t) s0)" by (rule steps_arrays_ok [OF assms(1)])
  show ?thesis
    unfolding Let_def pair_F_at_i [OF ok assms(2)] pair_F_at_i [OF ok assms(3)]
    by (simp add: fold_LOOP2_frame LOOP1_frame LOOP1_snapshot [OF ok] steps_mass
        spec_d_sym [of _ _ _ i j])
qed

theorem C9_witness:
  "arrays_ok 2 two_body \<and> (0::nat) < nat 2 \<and> (1::nat) < nat 2 \<and>
   (let s = step 2 two_body;
        si = fold (LOOP2_body 2) [0..<0] (LOOP1 2 s);
        sj = fold (LOOP2_body 2) [0..<1] (LOOP1 2 s)
    in old_mass si = [1, 2] \<and> mass si = [1, 2] \<and> old_mass sj = [1, 2] \<and> mass sj = [1, 2] \<and>
       pair_F si 0 1 = pair_F sj 1 0)"
proof -
  have ok: "arrays_ok 2 two_body" by (simp add: two_body_def arrays_ok_def)
  have i: "(0::nat) < nat 2" and j: "(1::nat) < nat 2" by simp_all
  have m: "mass two_body = [1, 2]" by (simp add: two_body_def)
  show ?thesis
    using ok i j C9_force_symmetric [OF ok i j, of 1]
    by (simp add: Let_def m LOOP2_body_frame LOOP1_frame step_mass)
qed

text \<open>
  C10. The driver computes the total mass once, before the time loop, and uses it in every
  report. A driver that recomputes the total mass of the current state for the report at
  \<open>t = 0\<close>, for each step report and for the final report returns the same status and
  prints the same output.
\<close>

theorem C10_total_mass_once:
  "main_recomputing argv RAND_MAX rand mem = main argv RAND_MAX rand mem"
proof (cases mem)
  case None
  show ?thesis by (simp add: None main_def main_recomputing_def)
next
  case (Some s)
  obtain s1 c1 where i: "init RAND_MAX rand 0 s NUM = (0, s1, c1)"
    using init_rc [of RAND_MAX rand 0 s NUM] by (cases "init RAND_MAX rand 0 s NUM") simp
  let ?tm = "total_mass (mass s1) NUM"
  let ?c0 = "calc_centre_mass (0, 0, 0) (x s1) (y s1) (z s1) (mass s1) ?tm NUM"
  let ?out = "[Initializing NUM, Malloced, InitComplete, AtT0 ?c0, NowIntegrate TS]"
  obtain s' com' out' where f: "fold (time_body NUM ?tm) [1..TS] (s1, ?c0, ?out) = (s', com', out')"
    by (cases "fold (time_body NUM ?tm) [1..TS] (s1, ?c0, ?out)")
  have m: "mass s' = mass s1"
    using time_loop_mass [of NUM ?tm "[1..TS]" s1 ?c0 ?out] by (simp add: f)
  show ?thesis
    by (simp add: Some main_def main_recomputing_def i Let_def time_loop_recomputing_eq f m)
qed

end
